theory Spec2Isabelle
  imports Complex_Main "HOL-Library.Char_ord" "HOL-Library.List_Lexorder"
begin

section \<open>The FRA WebGIS manager: data model\<close>

text \<open>
  The program (\<^verbatim>\<open>app_fra_webgis.py\<close>) keeps the claims of a GeoJSON file in a pandas
  DataFrame, one row per feature, and answers queries over it. A row is modelled as a
  record with the columns the queries read. The cells are typed by what the queries
  distinguish:
  \<^item> the string columns hold a string or a null (\<open>None\<close>: the key is missing in the
    feature, or its value is JSON null; pandas stores \<open>None\<close> or \<open>NaN\<close> there);
  \<^item> \<open>claim_area_ha\<close> holds a number, a null (\<open>NaN\<close>) or, in a malformed file, a string;
  \<^item> \<open>submission_date\<close> holds the raw string of the file, a null, or (after
    \<open>pd.to_datetime\<close>) a timestamp; \<open>NaT\<close> and the null are one value here;
  \<^item> the two verification flags are booleans;
  \<^item> \<open>submission_year\<close> and \<open>submission_month\<close> are columns that exist only after the
    timeline query has added them: the outer \<open>None\<close> says that the column is absent.

  A number in a cell is a rational: every finite double is one, and the comparisons of
  the filter are those of the doubles. The literal \<open>Infinity\<close>, which \<open>json.load\<close> accepts,
  is no value of a cell. What pandas, numpy and Python compute from the numbers (sums,
  means, quotients, roundings, in binary doubles or in 64-bit integers) is not computed
  by the model: these operations are parameters (the record \<open>lib\<close> below). The geometry
  is opaque to the program: its JSON text.
\<close>

type_synonym geom = string

datatype cell = Null | Num rat | Str string

fun is_str :: "cell \<Rightarrow> bool" where
  "is_str (Str s) = True"
| "is_str c = False"

datatype timestamp = Timestamp (ts_year: int) (ts_month: nat) (ts_day: nat)

datatype date_cell = NaT | Raw string | Time timestamp

record props =
  claim_id :: "string option"
  state :: "string option"
  district :: "string option"
  village :: "string option"
  fra_type :: "string option"
  status :: "string option"
  tribal_community :: "string option"
  claim_area_ha :: cell
  submission_date :: date_cell
  field_verification_done :: bool
  gps_coordinates_verified :: bool
  submission_year :: "int option option"
  submission_month :: "nat option option"

text \<open>\<open>props['geometry'] = feature['geometry']\<close>: a row is the properties plus the geometry.\<close>

record row = props +
  geometry :: geom

text \<open>The exceptions the queries can meet, each with the text \<open>str(e)\<close> gives.\<close>

datatype error =
    ValueError string
  | TypeError string
  | KeyError string
  | OSError string
  | JSONDecodeError string

fun str_exc :: "error \<Rightarrow> string" where
  "str_exc (ValueError m) = m"
| "str_exc (TypeError m) = m"
| "str_exc (KeyError m) = m"
| "str_exc (OSError m) = m"
| "str_exc (JSONDecodeError m) = m"

text \<open>
  A float as \<open>float(..)\<close> or a sum returns it: a finite number, \<open>NaN\<close>, or one of the two
  infinities.
\<close>

datatype pyfloat = NaN | Fin rat | PosInf | NegInf

text \<open>
  The value of a criterion is a string, as the routes take it from the query string,
  or \<open>None\<close> (what \<open>request.args.get\<close> gives for a key that is not there). A criteria
  mapping is the list of the items of the dict (\<open>map_of\<close> looks a key up); the argument
  \<open>filters=None\<close> is \<open>None\<close>.
\<close>

datatype pyval = PNone | PStr string

type_synonym filters = "(string \<times> pyval) list"

type_synonym analytics = "(string \<times> string) list"

record feature =
  f_properties :: props
  f_geometry :: geom

text \<open>
  A feature as the GeoJSON file holds it: the keys \<open>properties\<close> and \<open>geometry\<close> may be
  missing (\<open>None\<close>). \<open>rf_keys\<close> lists the keys of the dict under \<open>properties\<close>, in its
  order; a key that is not among them reads as a null in \<open>rf_properties\<close>.
\<close>

record raw_feature =
  rf_properties :: "props option"
  rf_geometry :: "geom option"
  rf_keys :: "string list"

text \<open>
  The manager: \<open>self.claims_data['features']\<close>, \<open>self.analytics_data\<close>, and \<open>self.df\<close>, the
  frame, as its rows (\<open>df\<close>) and the names of its columns (\<open>df_columns\<close>). pandas makes
  a column for every key that one feature at least has; in a frame built from features
  none of which has a key there is no such column, and \<open>self.df[key]\<close> raises KeyError.
  The cells of a row under a name that is no column are null and are never read by an
  aggregate. The filter, the lookup and the distinct-value listing are modelled on the
  rows alone, that is, for a frame that has the columns they read.
\<close>

record store =
  claims_data :: "raw_feature list"
  analytics_data :: analytics
  df :: "row list"
  df_columns :: "string list"

text \<open>
  The result of \<open>get_filtered_claims\<close>: the dict with the keys \<open>type\<close>, \<open>features\<close> and,
  when it is there, \<open>properties\<close> (\<open>total_claims\<close> and \<open>filters_applied\<close>).
\<close>

record metadata =
  m_total_claims :: nat
  m_filters_applied :: filters

record collection =
  c_type :: string
  c_features :: "feature list"
  c_properties :: "metadata option"

text \<open>
  What a route answers: the JSON of a value, or the JSON of an error with its HTTP
  status, its message and, in \<open>get_claims\<close>, the key \<open>features\<close>.
\<close>

datatype 'a response = Json 'a | ErrorJson nat string "feature list option"

text \<open>\<open>self.df[key]\<close> on a frame without the column: \<open>KeyError: 'key'\<close>.\<close>

definition q :: string where
  "q = [CHR 0x27]"

definition key_error :: "string \<Rightarrow> error" where
  "key_error k = KeyError (q @ k @ q)"

section \<open>The arithmetic of the libraries\<close>

text \<open>
  A sum over a column is a number or, in a column of dtype \<open>object\<close> (one that holds a
  string), possibly a string: Python's \<open>+\<close> concatenates strings.
\<close>

datatype total = Number pyfloat | Text string

text \<open>
  The operations on numbers that the program leaves to pandas, numpy and Python, as
  parameters of the model:
  \<^item> \<open>grp_sum xs\<close>: the \<open>'sum'\<close> of a group of a numeric column, \<open>xs\<close> being the cells of the
    group that are not null, in the order of the frame (pandas skips the nulls);
  \<^item> \<open>np_sum xs\<close>: \<open>Series.sum()\<close> of a numeric column, \<open>xs\<close> being its cells with 0 in the
    place of each null (pandas fills the nulls with 0 and lets numpy add);
  \<^item> \<open>np_mean xs n\<close>: \<open>Series.mean()\<close> of a numeric column with \<open>n > 0\<close> cells that are not
    null: the sum of \<open>xs\<close> (the cells, 0 for a null) in doubles, divided by \<open>n\<close>;
  \<^item> \<open>obj_grp_sum\<close>, \<open>obj_sum\<close>, \<open>obj_mean\<close>: the same three on the cells of a column of
    dtype \<open>object\<close>, where the cells are added with Python's \<open>+\<close> and the operation may
    raise;
  \<^item> \<open>percent a b\<close>: \<open>a / b * 100\<close> on two Python ints, \<open>b > 0\<close>;
  \<^item> \<open>py_round x\<close>: \<open>round(x, 2)\<close> on a Python float;
  \<^item> \<open>np_round x\<close>: \<open>round(x, 2)\<close> on a numpy scalar.

  A theorem about the program holds for every value of these parameters.
\<close>

record lib =
  grp_sum :: "rat list \<Rightarrow> pyfloat"
  np_sum :: "rat list \<Rightarrow> pyfloat"
  np_mean :: "rat list \<Rightarrow> nat \<Rightarrow> pyfloat"
  obj_grp_sum :: "cell list \<Rightarrow> error + total"
  obj_sum :: "cell list \<Rightarrow> error + total"
  obj_mean :: "cell list \<Rightarrow> error + pyfloat"
  percent :: "nat \<Rightarrow> nat \<Rightarrow> rat"
  py_round :: "rat \<Rightarrow> rat"
  np_round :: "rat \<Rightarrow> pyfloat"

text \<open>A column is of dtype \<open>object\<close> when one of its cells is a string.\<close>

definition object_column :: "cell list \<Rightarrow> bool" where
  "object_column cs = list_ex is_str cs"

text \<open>The numbers among the cells, and the cells with 0 in the place of a null.\<close>

fun nums :: "cell list \<Rightarrow> rat list" where
  "nums [] = []"
| "nums (Num a # cs) = a # nums cs"
| "nums (c # cs) = nums cs"

fun zero_filled :: "cell \<Rightarrow> rat" where
  "zero_filled (Num a) = a"
| "zero_filled c = 0"

section \<open>Filtering\<close>

text \<open>\<open>'k' in filters and filters['k']\<close>: the key is there and its value is truthy.\<close>

fun truthy :: "pyval \<Rightarrow> bool" where
  "truthy PNone = False"
| "truthy (PStr s) = (s \<noteq> [])"

definition active :: "filters \<Rightarrow> string \<Rightarrow> string option" where
  "active f k =
     (case map_of f k of
        None \<Rightarrow> None
      | Some PNone \<Rightarrow> None
      | Some (PStr v) \<Rightarrow> (if truthy (PStr v) then Some v else None))"

text \<open>\<open>filtered_df[filtered_df[col] == filters[k]]\<close>: a null cell is equal to nothing.\<close>

definition eq_filter :: "(row \<Rightarrow> string option) \<Rightarrow> filters \<Rightarrow> string \<Rightarrow> row list \<Rightarrow> row list" where
  "eq_filter col f k rows =
     (case active f k of
        None \<Rightarrow> rows
      | Some v \<Rightarrow> filter (\<lambda>r. col r = Some v) rows)"

definition cmp_error :: "string \<Rightarrow> error" where
  "cmp_error opr = TypeError (q @ opr @ q @ '' not supported between instances of ''
                      @ q @ ''str'' @ q @ '' and '' @ q @ ''float'' @ q)"

text \<open>
  \<open>filtered_df['claim_area_ha'] >= min_area\<close>, cell by cell: a null cell gives False, a
  \<open>NaN\<close> bound gives False, a string against a float raises TypeError.
\<close>

fun cmp_ge :: "cell \<Rightarrow> pyfloat \<Rightarrow> error + bool" where
  "cmp_ge Null b = Inr False"
| "cmp_ge c NaN = Inr False"
| "cmp_ge (Num a) (Fin m) = Inr (m \<le> a)"
| "cmp_ge (Num a) PosInf = Inr False"
| "cmp_ge (Num a) NegInf = Inr True"
| "cmp_ge (Str s) b = Inl (cmp_error ''>='')"

fun cmp_le :: "cell \<Rightarrow> pyfloat \<Rightarrow> error + bool" where
  "cmp_le Null b = Inr False"
| "cmp_le c NaN = Inr False"
| "cmp_le (Num a) (Fin m) = Inr (a \<le> m)"
| "cmp_le (Num a) PosInf = Inr True"
| "cmp_le (Num a) NegInf = Inr False"
| "cmp_le (Str s) b = Inl (cmp_error ''<='')"

text \<open>The boolean mask over the column, then the rows it selects; the first error wins.\<close>

fun mask_filter :: "(cell \<Rightarrow> error + bool) \<Rightarrow> row list \<Rightarrow> error + row list" where
  "mask_filter p [] = Inr []"
| "mask_filter p (r # rs) =
     (case p (claim_area_ha r) of
        Inl e \<Rightarrow> Inl e
      | Inr b \<Rightarrow>
          (case mask_filter p rs of
             Inl e \<Rightarrow> Inl e
           | Inr rs' \<Rightarrow> Inr (if b then r # rs' else rs')))"

text \<open>
  \<open>float\<close> on a string is a parameter of the model: \<open>to_float s\<close> is \<open>Inr\<close> the float, or
  \<open>Inl\<close> the message of the ValueError that \<open>float(s)\<close> raises.
\<close>

definition range_filter ::
  "(string \<Rightarrow> string + pyfloat) \<Rightarrow> (cell \<Rightarrow> pyfloat \<Rightarrow> error + bool) \<Rightarrow> filters \<Rightarrow> string
     \<Rightarrow> row list \<Rightarrow> error + row list" where
  "range_filter to_float cmp f k rows =
     (case active f k of
        None \<Rightarrow> Inr rows
      | Some v \<Rightarrow>
          (case to_float v of
             Inl msg \<Rightarrow> Inl (ValueError msg)
           | Inr b \<Rightarrow> mask_filter (\<lambda>c. cmp c b) rows))"

definition apply_filters ::
  "(string \<Rightarrow> string + pyfloat) \<Rightarrow> filters option \<Rightarrow> row list \<Rightarrow> error + row list" where
  "apply_filters to_float filters rows =
     (case filters of
        None \<Rightarrow> Inr rows
      | Some f \<Rightarrow>
          if f = [] then Inr rows
          else
            (let r1 = eq_filter state f ''state'' rows;
                 r2 = eq_filter district f ''district'' r1;
                 r3 = eq_filter village f ''village'' r2;
                 r4 = eq_filter fra_type f ''fra_type'' r3;
                 r5 = eq_filter status f ''status'' r4;
                 r6 = eq_filter tribal_community f ''tribal_community'' r5
             in case range_filter to_float cmp_ge f ''claim_area_min'' r6 of
                  Inl e \<Rightarrow> Inl e
                | Inr r7 \<Rightarrow> range_filter to_float cmp_le f ''claim_area_max'' r7))"

text \<open>
  The row written back as a feature: every column but the geometry goes to the
  properties (a \<open>NaN\<close> as \<open>None\<close>: both are the null of the model), the geometry is
  passed on.
\<close>

definition to_feature :: "row \<Rightarrow> feature" where
  "to_feature r = \<lparr>f_properties = props.truncate r, f_geometry = geometry r\<rparr>"

definition filters_or_empty :: "filters option \<Rightarrow> filters" where
  "filters_or_empty filters = (case filters of None \<Rightarrow> [] | Some f \<Rightarrow> f)"

definition get_filtered_claims ::
  "(string \<Rightarrow> string + pyfloat) \<Rightarrow> filters option \<Rightarrow> store \<Rightarrow> (error + collection) \<times> store" where
  "get_filtered_claims to_float filters s =
     (if df s = [] then
        (Inr \<lparr>c_type = ''FeatureCollection'', c_features = [], c_properties = None\<rparr>, s)
      else
        (case apply_filters to_float filters (df s) of
           Inl e \<Rightarrow> (Inl e, s)
         | Inr filtered_df \<Rightarrow>
             (let features = map to_feature filtered_df
              in (Inr \<lparr>c_type = ''FeatureCollection'',
                       c_features = features,
                       c_properties =
                         Some \<lparr>m_total_claims = length features,
                               m_filters_applied = filters_or_empty filters\<rparr>\<rparr>, s))))"

subsection \<open>The criteria as the specification words them\<close>

text \<open>
  A record satisfies a criteria mapping when it satisfies each criterion that is
  active: the six string keys by equality with the record's field, the two bounds by
  an inclusive comparison of numbers. A key that is absent, or holds \<open>None\<close> or the
  empty string, is not active; a key outside the eight is never looked at.
\<close>

definition eq_ok :: "(row \<Rightarrow> string option) \<Rightarrow> filters \<Rightarrow> string \<Rightarrow> row \<Rightarrow> bool" where
  "eq_ok col f k r = (case active f k of None \<Rightarrow> True | Some v \<Rightarrow> col r = Some v)"

definition min_ok :: "(string \<Rightarrow> string + pyfloat) \<Rightarrow> filters \<Rightarrow> row \<Rightarrow> bool" where
  "min_ok to_float f r =
     (case active f ''claim_area_min'' of
        None \<Rightarrow> True
      | Some v \<Rightarrow>
          (case to_float v of
             Inr (Fin m) \<Rightarrow> (case claim_area_ha r of Num a \<Rightarrow> m \<le> a | _ \<Rightarrow> False)
           | Inr NegInf \<Rightarrow> (case claim_area_ha r of Num a \<Rightarrow> True | _ \<Rightarrow> False)
           | _ \<Rightarrow> False))"

definition max_ok :: "(string \<Rightarrow> string + pyfloat) \<Rightarrow> filters \<Rightarrow> row \<Rightarrow> bool" where
  "max_ok to_float f r =
     (case active f ''claim_area_max'' of
        None \<Rightarrow> True
      | Some v \<Rightarrow>
          (case to_float v of
             Inr (Fin m) \<Rightarrow> (case claim_area_ha r of Num a \<Rightarrow> a \<le> m | _ \<Rightarrow> False)
           | Inr PosInf \<Rightarrow> (case claim_area_ha r of Num a \<Rightarrow> True | _ \<Rightarrow> False)
           | _ \<Rightarrow> False))"

definition matches :: "(string \<Rightarrow> string + pyfloat) \<Rightarrow> filters \<Rightarrow> row \<Rightarrow> bool" where
  "matches to_float f r \<longleftrightarrow>
     eq_ok state f ''state'' r \<and> eq_ok district f ''district'' r \<and>
     eq_ok village f ''village'' r \<and> eq_ok fra_type f ''fra_type'' r \<and>
     eq_ok status f ''status'' r \<and> eq_ok tribal_community f ''tribal_community'' r \<and>
     min_ok to_float f r \<and> max_ok to_float f r"

section \<open>Grouping and aggregation\<close>

text \<open>
  \<open>df.groupby(col)\<close>: the groups are the distinct values of the column that are not
  null, in ascending order; a group holds the rows with that value, in the order of
  the frame. A row whose key is null is in no group.
\<close>

definition group_keys :: "(row \<Rightarrow> 'k option) \<Rightarrow> row list \<Rightarrow> ('k :: linorder) list" where
  "group_keys key rows = sort (remdups (List.map_filter key rows))"

definition groupby :: "(row \<Rightarrow> 'k option) \<Rightarrow> row list \<Rightarrow> (('k :: linorder) \<times> row list) list" where
  "groupby key rows =
     map (\<lambda>k. (k, filter (\<lambda>r. key r = Some k) rows)) (group_keys key rows)"

text \<open>
  \<open>.agg({..})\<close> with a dict first looks its keys up among the columns: the ones that are
  no column are reported together, sorted, in one KeyError (the text is that of
  pandas 2).
\<close>

fun join :: "string list \<Rightarrow> string" where
  "join [] = []"
| "join [x] = x"
| "join (x # y # xs) = x @ '', '' @ join (y # xs)"

definition agg_columns_error :: "string list \<Rightarrow> error" where
  "agg_columns_error cols =
     KeyError ([CHR 0x22] @ ''Column(s) ['' @ join (map (\<lambda>c. q @ c @ q) cols)
               @ ''] do not exist'' @ [CHR 0x22])"

definition missing_columns :: "store \<Rightarrow> string list \<Rightarrow> string list" where
  "missing_columns s cols = sort (filter (\<lambda>c. c \<notin> set (df_columns s)) cols)"

text \<open>\<open>'count'\<close>: the number of the cells that are not null.\<close>

definition count_notnull :: "'a option list \<Rightarrow> nat" where
  "count_notnull xs = length (filter (\<lambda>x. x \<noteq> None) xs)"

text \<open>
  \<open>'sum'\<close> of the cells of a group. \<open>obj\<close> says that the column, as a whole, is of dtype
  \<open>object\<close>.
\<close>

definition group_sum :: "lib \<Rightarrow> bool \<Rightarrow> cell list \<Rightarrow> error + total" where
  "group_sum lib obj cs =
     (if obj then obj_grp_sum lib cs else Inr (Number (grp_sum lib (nums cs))))"

text \<open>
  \<open>x.value_counts().to_dict()\<close>: each value that is not null with the number of its
  occurrences, the most frequent first (values of equal count in the order of their
  first occurrence).
\<close>

definition unique :: "'a list \<Rightarrow> 'a list" where
  "unique xs = rev (remdups (rev xs))"

definition value_counts :: "string option list \<Rightarrow> (string \<times> nat) list" where
  "value_counts xs =
     (let vs = List.map_filter id xs
      in sort_key (\<lambda>(v, c). - int c) (map (\<lambda>v. (v, count_list vs v)) (unique vs)))"

text \<open>
  The entry of one group in \<open>get_state_wise_summary\<close> and
  \<open>get_tribal_community_analysis\<close>: a dict from the names of the aggregated columns to
  their values. The rename touches two columns only: \<open>claim_id\<close> becomes \<open>total_claims\<close>
  and \<open>status\<close> becomes \<open>approved_claims\<close>; the sum stays under \<open>claim_area_ha\<close> and the
  counts by type stay under \<open>fra_type\<close>.
\<close>

datatype agg_value = Count nat | Area total | Types "(string \<times> nat) list"

type_synonym entry = "(string \<times> agg_value) list"

definition summarise :: "lib \<Rightarrow> bool \<Rightarrow> row list \<Rightarrow> error + entry" where
  "summarise lib obj g =
     (case group_sum lib obj (map claim_area_ha g) of
        Inl e \<Rightarrow> Inl e
      | Inr t \<Rightarrow>
          Inr [(''total_claims'', Count (count_notnull (map claim_id g))),
               (''claim_area_ha'', Area t),
               (''approved_claims'',
                  Count (length (filter (\<lambda>r. status r = Some ''approved'') g))),
               (''fra_type'', Types (value_counts (map fra_type g)))])"

text \<open>The aggregation of every group; the first error wins.\<close>

fun agg :: "(row list \<Rightarrow> error + 'a) \<Rightarrow> ('k \<times> row list) list \<Rightarrow> error + ('k \<times> 'a) list" where
  "agg f [] = Inr []"
| "agg f ((k, g) # gs) =
     (case f g of
        Inl e \<Rightarrow> Inl e
      | Inr a \<Rightarrow> (case agg f gs of Inl e \<Rightarrow> Inl e | Inr as \<Rightarrow> Inr ((k, a) # as)))"

text \<open>
  \<open>self.df.groupby(key).agg({..})\<close>: KeyError when the key is no column, KeyError when
  an aggregated column is missing, else the entries of the groups.
\<close>

definition rollup_columns :: "string list" where
  "rollup_columns = [''claim_id'', ''claim_area_ha'', ''status'', ''fra_type'']"

definition get_state_wise_summary :: "lib \<Rightarrow> store \<Rightarrow> (error + (string \<times> entry) list) \<times> store" where
  "get_state_wise_summary lib s =
     (if df s = [] then (Inr [], s)
      else if ''state'' \<notin> set (df_columns s) then (Inl (key_error ''state''), s)
      else if missing_columns s rollup_columns \<noteq> []
        then (Inl (agg_columns_error (missing_columns s rollup_columns)), s)
      else (agg (summarise lib (object_column (map claim_area_ha (df s))))
              (groupby state (df s)), s))"

definition get_tribal_community_analysis ::
  "lib \<Rightarrow> store \<Rightarrow> (error + (string \<times> entry) list) \<times> store" where
  "get_tribal_community_analysis lib s =
     (if df s = [] then (Inr [], s)
      else if ''tribal_community'' \<notin> set (df_columns s)
        then (Inl (key_error ''tribal_community''), s)
      else if missing_columns s rollup_columns \<noteq> []
        then (Inl (agg_columns_error (missing_columns s rollup_columns)), s)
      else (agg (summarise lib (object_column (map claim_area_ha (df s))))
              (groupby tribal_community (df s)), s))"

section \<open>Single-record lookup\<close>

definition get_claim_details :: "string \<Rightarrow> store \<Rightarrow> row option \<times> store" where
  "get_claim_details cid s =
     (if df s = [] then (None, s)
      else
        (case filter (\<lambda>r. claim_id r = Some cid) (df s) of
           [] \<Rightarrow> (None, s)
         | r # rs \<Rightarrow> (Some r, s)))"

section \<open>Timeline\<close>

text \<open>
  \<open>pd.to_datetime\<close> is a parameter of the model. It is called once, on the whole
  column, and pandas reads the strings of a column together (it takes the format from
  the first of them): \<open>to_datetime ss\<close>, for the strings \<open>ss\<close> of the column in their
  order, is \<open>Inl\<close> the message of the ValueError it raises, or \<open>Inr\<close> the reading of the
  strings of this column, which gives each of them its timestamp, or \<open>None\<close> for one
  that pandas reads as \<open>NaT\<close>. A null stays a null and a timestamp stays as it is; a
  column without a string is returned as it is.
\<close>

type_synonym reading = "string \<Rightarrow> timestamp option"

definition date_strings :: "row list \<Rightarrow> string list" where
  "date_strings rows =
     List.map_filter (\<lambda>r. case submission_date r of Raw s \<Rightarrow> Some s | _ \<Rightarrow> None) rows"

fun convert_date :: "reading \<Rightarrow> date_cell \<Rightarrow> date_cell" where
  "convert_date rd NaT = NaT"
| "convert_date rd (Time t) = Time t"
| "convert_date rd (Raw s) = (case rd s of None \<Rightarrow> NaT | Some t \<Rightarrow> Time t)"

definition convert_dates :: "(string list \<Rightarrow> string + reading) \<Rightarrow> row list \<Rightarrow> error + row list" where
  "convert_dates to_datetime rows =
     (if date_strings rows = [] then Inr rows
      else
        (case to_datetime (date_strings rows) of
           Inl msg \<Rightarrow> Inl (ValueError msg)
         | Inr rd \<Rightarrow>
             Inr (map (\<lambda>r. r\<lparr>submission_date := convert_date rd (submission_date r)\<rparr>) rows)))"

text \<open>\<open>.dt.year\<close> and \<open>.dt.month\<close>: null where the date is \<open>NaT\<close>.\<close>

fun dt_year :: "date_cell \<Rightarrow> int option" where
  "dt_year (Time t) = Some (ts_year t)"
| "dt_year d = None"

fun dt_month :: "date_cell \<Rightarrow> nat option" where
  "dt_month (Time t) = Some (ts_month t)"
| "dt_month d = None"

definition add_year_month :: "row \<Rightarrow> row" where
  "add_year_month r =
     r\<lparr>submission_year := Some (dt_year (submission_date r)),
       submission_month := Some (dt_month (submission_date r))\<rparr>"

text \<open>An assignment to \<open>self.df[name]\<close> adds the column when it is not there.\<close>

definition add_columns :: "string list \<Rightarrow> string list \<Rightarrow> string list" where
  "add_columns names cols = cols @ filter (\<lambda>n. n \<notin> set cols) names"

text \<open>The group key of a derived column: null when the cell is null.\<close>

definition year_key :: "row \<Rightarrow> int option" where
  "year_key r = (case submission_year r of Some (Some y) \<Rightarrow> Some y | _ \<Rightarrow> None)"

definition month_key :: "row \<Rightarrow> nat option" where
  "month_key r = (case submission_month r of Some (Some m) \<Rightarrow> Some m | _ \<Rightarrow> None)"

text \<open>
  The entries of the two rollups; their keys in the source are \<open>claims_submitted\<close>,
  \<open>claim_area_ha\<close> and, for a year, \<open>claims_approved\<close>.
\<close>

record year_entry =
  y_claims_submitted :: nat
  y_claim_area_ha :: total
  y_claims_approved :: nat

record month_entry =
  mo_claims_submitted :: nat
  mo_claim_area_ha :: total

definition summarise_year :: "lib \<Rightarrow> bool \<Rightarrow> row list \<Rightarrow> error + year_entry" where
  "summarise_year lib obj g =
     (case group_sum lib obj (map claim_area_ha g) of
        Inl e \<Rightarrow> Inl e
      | Inr t \<Rightarrow>
          Inr \<lparr>y_claims_submitted = count_notnull (map claim_id g),
               y_claim_area_ha = t,
               y_claims_approved = length (filter (\<lambda>r. status r = Some ''approved'') g)\<rparr>)"

definition summarise_month :: "lib \<Rightarrow> bool \<Rightarrow> row list \<Rightarrow> error + month_entry" where
  "summarise_month lib obj g =
     (case group_sum lib obj (map claim_area_ha g) of
        Inl e \<Rightarrow> Inl e
      | Inr t \<Rightarrow>
          Inr \<lparr>mo_claims_submitted = count_notnull (map claim_id g),
               mo_claim_area_ha = t\<rparr>)"

record timeline =
  yearly :: "(int \<times> year_entry) list"
  monthly :: "(nat \<times> month_entry) list"

definition yearly_rollup :: "lib \<Rightarrow> store \<Rightarrow> error + (int \<times> year_entry) list" where
  "yearly_rollup lib s =
     (if missing_columns s [''claim_id'', ''claim_area_ha'', ''status''] \<noteq> []
        then Inl (agg_columns_error
                    (missing_columns s [''claim_id'', ''claim_area_ha'', ''status'']))
      else agg (summarise_year lib (object_column (map claim_area_ha (df s))))
             (groupby year_key (df s)))"

definition monthly_rollup :: "lib \<Rightarrow> int \<Rightarrow> store \<Rightarrow> error + (nat \<times> month_entry) list" where
  "monthly_rollup lib current_year s =
     (if missing_columns s [''claim_id'', ''claim_area_ha''] \<noteq> []
        then Inl (agg_columns_error (missing_columns s [''claim_id'', ''claim_area_ha'']))
      else agg (summarise_month lib (object_column (map claim_area_ha (df s))))
             (groupby month_key
                (filter (\<lambda>r. submission_year r = Some (Some current_year)) (df s))))"

text \<open>
  \<open>get_timeline_analysis\<close> assigns the converted dates and the two derived columns to
  \<open>self.df\<close> itself: the store it returns holds them. \<open>current_year\<close> is
  \<open>datetime.now().year\<close>. The result is \<open>None\<close> for the empty dict \<open>{}\<close>.
\<close>

definition get_timeline_analysis ::
  "lib \<Rightarrow> (string list \<Rightarrow> string + reading) \<Rightarrow> int \<Rightarrow> store
     \<Rightarrow> (error + timeline option) \<times> store" where
  "get_timeline_analysis lib to_datetime current_year s =
     (if df s = [] then (Inr None, s)
      else if ''submission_date'' \<notin> set (df_columns s)
        then (Inl (key_error ''submission_date''), s)
      else
        (case convert_dates to_datetime (df s) of
           Inl e \<Rightarrow> (Inl e, s)
         | Inr converted \<Rightarrow>
             (let s' = s\<lparr>df := map add_year_month converted,
                         df_columns :=
                           add_columns [''submission_year'', ''submission_month'']
                             (df_columns s)\<rparr>
              in case yearly_rollup lib s' of
                   Inl e \<Rightarrow> (Inl e, s')
                 | Inr y \<Rightarrow>
                     (case monthly_rollup lib current_year s' of
                        Inl e \<Rightarrow> (Inl e, s')
                      | Inr m \<Rightarrow> (Inr (Some \<lparr>yearly = y, monthly = m\<rparr>), s')))))"

text \<open>The route \<open>/api/timeline\<close>: the JSON of the result, or the error 500 with \<open>str(e)\<close>.\<close>

definition timeline_route ::
  "lib \<Rightarrow> (string list \<Rightarrow> string + reading) \<Rightarrow> int \<Rightarrow> store
     \<Rightarrow> timeline option response \<times> store" where
  "timeline_route lib to_datetime current_year s =
     (case get_timeline_analysis lib to_datetime current_year s of
        (Inr t, s') \<Rightarrow> (Json t, s')
      | (Inl e, s') \<Rightarrow> (ErrorJson 500 (str_exc e) None, s'))"

section \<open>Performance metrics\<close>

text \<open>
  \<open>Series.sum()\<close> and \<open>Series.mean()\<close> of the column \<open>claim_area_ha\<close>. In a numeric column
  the nulls are filled with 0 and numpy adds; the mean divides by the number of the
  cells that are not null and is \<open>NaN\<close> when there is none.
\<close>

definition series_sum :: "lib \<Rightarrow> cell list \<Rightarrow> error + total" where
  "series_sum lib cs =
     (if object_column cs then obj_sum lib cs
      else Inr (Number (np_sum lib (map zero_filled cs))))"

definition series_mean :: "lib \<Rightarrow> cell list \<Rightarrow> error + pyfloat" where
  "series_mean lib cs =
     (if object_column cs then obj_mean lib cs
      else
        (let n = length (filter (\<lambda>c. c \<noteq> Null) cs)
         in Inr (if n = 0 then NaN else np_mean lib (map zero_filled cs) n)))"

text \<open>
  \<open>round(x, 2)\<close> on what \<open>sum()\<close> and \<open>mean()\<close> return: \<open>NaN\<close> and the infinities stay, a
  string has no \<open>__round__\<close>.
\<close>

definition round_error :: error where
  "round_error = TypeError (''type str doesn'' @ q @ ''t define __round__ method'')"

fun round_np :: "lib \<Rightarrow> pyfloat \<Rightarrow> pyfloat" where
  "round_np lib (Fin x) = np_round lib x"
| "round_np lib x = x"

fun round_total :: "lib \<Rightarrow> total \<Rightarrow> error + pyfloat" where
  "round_total lib (Number x) = Inr (round_np lib x)"
| "round_total lib (Text t) = Inl round_error"

record metrics =
  pm_total_claims :: nat
  pm_approved_claims :: nat
  pm_pending_claims :: nat
  pm_rejected_claims :: nat
  pm_approval_rate :: rat
  pm_pending_rate :: rat
  pm_total_area_ha :: pyfloat
  pm_average_claim_size_ha :: pyfloat
  pm_field_verification_rate :: rat
  pm_gps_verification_rate :: rat

text \<open>\<open>round(count / total_claims * 100, 2) if total_claims > 0 else 0\<close>\<close>

definition rate :: "lib \<Rightarrow> nat \<Rightarrow> nat \<Rightarrow> rat" where
  "rate lib n total_claims =
     (if total_claims > 0 then py_round lib (percent lib n total_claims) else 0)"

definition pending_statuses :: "string list" where
  "pending_statuses = [''submitted'', ''under_review'', ''field_verification'']"

text \<open>
  The result is \<open>None\<close> for the empty dict \<open>{}\<close> that the guard at the head returns. The
  columns are read in the order of the source: \<open>status\<close>, \<open>claim_area_ha\<close> (its sum, then
  its mean), \<open>field_verification_done\<close>, \<open>gps_coordinates_verified\<close>; the first that is
  missing raises KeyError.
\<close>

definition get_performance_metrics :: "lib \<Rightarrow> store \<Rightarrow> (error + metrics option) \<times> store" where
  "get_performance_metrics lib s =
     (if df s = [] then (Inr None, s)
      else if ''status'' \<notin> set (df_columns s) then (Inl (key_error ''status''), s)
      else if ''claim_area_ha'' \<notin> set (df_columns s)
        then (Inl (key_error ''claim_area_ha''), s)
      else
        (let total_claims = length (df s);
             approved_claims = length (filter (\<lambda>r. status r = Some ''approved'') (df s));
             pending_claims =
               length (filter (\<lambda>r. status r \<in> set (map Some pending_statuses)) (df s))
         in case series_sum lib (map claim_area_ha (df s)) of
              Inl e \<Rightarrow> (Inl e, s)
            | Inr t \<Rightarrow>
           (case round_total lib t of
              Inl e \<Rightarrow> (Inl e, s)
            | Inr total_area \<Rightarrow>
           (case series_mean lib (map claim_area_ha (df s)) of
              Inl e \<Rightarrow> (Inl e, s)
            | Inr mean_area \<Rightarrow>
                if ''field_verification_done'' \<notin> set (df_columns s)
                  then (Inl (key_error ''field_verification_done''), s)
                else if ''gps_coordinates_verified'' \<notin> set (df_columns s)
                  then (Inl (key_error ''gps_coordinates_verified''), s)
                else
                  (Inr (Some
                     \<lparr>pm_total_claims = total_claims,
                      pm_approved_claims = approved_claims,
                      pm_pending_claims = pending_claims,
                      pm_rejected_claims =
                        length (filter (\<lambda>r. status r = Some ''rejected'') (df s)),
                      pm_approval_rate = rate lib approved_claims total_claims,
                      pm_pending_rate = rate lib pending_claims total_claims,
                      pm_total_area_ha = total_area,
                      pm_average_claim_size_ha = round_np lib mean_area,
                      pm_field_verification_rate =
                        rate lib (length (filter field_verification_done (df s))) total_claims,
                      pm_gps_verification_rate =
                        rate lib (length (filter gps_coordinates_verified (df s)))
                          total_claims\<rparr>),
                   s)))))"

section \<open>Distinct values\<close>

text \<open>
  \<open>sorted(column.unique().tolist())\<close>. \<open>unique\<close> keeps a null as a value. \<open>sorted\<close>
  compares the elements with \<open><\<close>, which raises TypeError between a null and a string:
  a list of two or more elements with a null among them cannot be sorted.
\<close>

definition sort_error :: error where
  "sort_error = TypeError (q @ ''<'' @ q @ '' not supported between instances of ''
                  @ q @ ''NoneType'' @ q @ '' and '' @ q @ ''str'' @ q)"

definition py_sorted :: "string option list \<Rightarrow> error + string option list" where
  "py_sorted xs =
     (if None \<in> set xs then (if length xs \<le> 1 then Inr xs else Inl sort_error)
      else Inr (map Some (sort (List.map_filter id xs))))"

record options =
  states :: "string option list"
  districts :: "string option list"
  villages :: "string option list"
  fra_types :: "string option list"
  statuses :: "string option list"
  tribal_communities :: "string option list"

definition sorted_unique :: "(row \<Rightarrow> string option) \<Rightarrow> row list \<Rightarrow> error + string option list" where
  "sorted_unique col rows = py_sorted (unique (map col rows))"

text \<open>The answer is \<open>Json None\<close> for the empty dict \<open>{}\<close>.\<close>

definition get_filter_options :: "store \<Rightarrow> options option response \<times> store" where
  "get_filter_options s =
     (if df s = [] then (Json None, s)
      else
        (case sorted_unique state (df s) of
           Inl e \<Rightarrow> (ErrorJson 500 (str_exc e) None, s)
         | Inr a \<Rightarrow>
        (case sorted_unique district (df s) of
           Inl e \<Rightarrow> (ErrorJson 500 (str_exc e) None, s)
         | Inr b \<Rightarrow>
        (case sorted_unique village (df s) of
           Inl e \<Rightarrow> (ErrorJson 500 (str_exc e) None, s)
         | Inr c \<Rightarrow>
        (case sorted_unique fra_type (df s) of
           Inl e \<Rightarrow> (ErrorJson 500 (str_exc e) None, s)
         | Inr d \<Rightarrow>
        (case sorted_unique status (df s) of
           Inl e \<Rightarrow> (ErrorJson 500 (str_exc e) None, s)
         | Inr e' \<Rightarrow>
        (case sorted_unique tribal_community (df s) of
           Inl e \<Rightarrow> (ErrorJson 500 (str_exc e) None, s)
         | Inr f \<Rightarrow>
             (Json (Some \<lparr>states = a, districts = b, villages = c, fra_types = d,
                          statuses = e', tribal_communities = f\<rparr>), s))))))))"

section \<open>The claims route\<close>

text \<open>
  \<open>get_claims\<close> reads the eight keys from the query string (\<open>request.args.get\<close> gives
  \<open>None\<close> for a missing one), drops the values that are empty or missing, and calls the
  filter. Any exception becomes the answer 500 with the message
  \<open>Error loading claims: \<close> followed by the text of the exception, and no features.
\<close>

definition filter_keys :: "string list" where
  "filter_keys = [''state'', ''district'', ''village'', ''fra_type'', ''status'',
                  ''tribal_community'', ''claim_area_min'', ''claim_area_max'']"

definition request_filters :: "(string \<times> string) list \<Rightarrow> filters" where
  "request_filters args =
     List.map_filter
       (\<lambda>k. case map_of args k of
               None \<Rightarrow> None
             | Some v \<Rightarrow> if v \<noteq> [] then Some (k, PStr v) else None)
       filter_keys"

definition get_claims ::
  "(string \<Rightarrow> string + pyfloat) \<Rightarrow> (string \<times> string) list \<Rightarrow> store \<Rightarrow> collection response \<times> store" where
  "get_claims to_float args s =
     (case get_filtered_claims to_float (Some (request_filters args)) s of
        (Inr data, s') \<Rightarrow> (Json data, s')
      | (Inl e, s') \<Rightarrow> (ErrorJson 500 (''Error loading claims: '' @ str_exc e) (Some []), s'))"

section \<open>Construction\<close>

text \<open>
  Reading the two files is a parameter of the model: \<open>read_geojson path\<close> is what
  \<open>open\<close> and \<open>json.load\<close> give for the claims file, \<open>Inl\<close> the exception they raise
  (the file is missing or unreadable, or is not JSON) or \<open>Inr\<close> the document, which
  holds the list under the key \<open>features\<close> or \<open>None\<close> when the key is missing;
  \<open>read_analytics path\<close> likewise for the statistics. What \<open>print\<close> writes is the log.
\<close>

datatype log_entry = Loaded nat | ErrorLoading error

fun build_rows :: "raw_feature list \<Rightarrow> error + row list" where
  "build_rows [] = Inr []"
| "build_rows (f # fs) =
     (case rf_properties f of
        None \<Rightarrow> Inl (key_error ''properties'')
      | Some p \<Rightarrow>
          (case rf_geometry f of
             None \<Rightarrow> Inl (key_error ''geometry'')
           | Some g \<Rightarrow>
               (case build_rows fs of
                  Inl e \<Rightarrow> Inl e
                | Inr rs \<Rightarrow> Inr (props.extend p (row.fields g) # rs))))"

text \<open>
  \<open>pd.DataFrame(features)\<close>: the columns are the keys of the dicts, each at its first
  occurrence; \<open>geometry\<close> has been put into every dict.
\<close>

definition frame_columns :: "raw_feature list \<Rightarrow> string list" where
  "frame_columns fs = unique (concat (map (\<lambda>f. rf_keys f @ [''geometry'']) fs))"

text \<open>The handler: \<open>pd.DataFrame()\<close> has no row and no column.\<close>

definition load_failed :: "error \<Rightarrow> store \<times> log_entry list" where
  "load_failed e =
     (\<lparr>claims_data = [], analytics_data = [], df = [], df_columns = []\<rparr>, [ErrorLoading e])"

definition load_data ::
  "(string \<Rightarrow> error + raw_feature list option) \<Rightarrow> (string \<Rightarrow> error + analytics)
     \<Rightarrow> string \<Rightarrow> string \<Rightarrow> store \<times> log_entry list" where
  "load_data read_geojson read_analytics geojson_file analytics_file =
     (case read_geojson geojson_file of
        Inl e \<Rightarrow> load_failed e
      | Inr doc \<Rightarrow>
          (case read_analytics analytics_file of
             Inl e \<Rightarrow> load_failed e
           | Inr stats \<Rightarrow>
               (case doc of
                  None \<Rightarrow> load_failed (key_error ''features'')
                | Some fs \<Rightarrow>
                    (case build_rows fs of
                       Inl e \<Rightarrow> load_failed e
                     | Inr rows \<Rightarrow>
                         (\<lparr>claims_data = fs, analytics_data = stats, df = rows,
                           df_columns = frame_columns fs\<rparr>,
                          [Loaded (length rows)])))))"

section \<open>The properties in the words of the specification\<close>

text \<open>
  The conditions under which the queries return: a bound is usable when it is not
  active or \<open>float\<close> accepts it; the areas of a dataset are numeric when none of them is
  a string; a frame has the columns of a list when it is empty (an empty frame is never
  asked for a column) or each of them is among its columns.
\<close>

definition bound_ok :: "(string \<Rightarrow> string + pyfloat) \<Rightarrow> filters \<Rightarrow> string \<Rightarrow> bool" where
  "bound_ok to_float f k =
     (case active f k of
        None \<Rightarrow> True
      | Some v \<Rightarrow> (case to_float v of Inl msg \<Rightarrow> False | Inr b \<Rightarrow> True))"

definition numeric_areas :: "row list \<Rightarrow> bool" where
  "numeric_areas rows = list_all (\<lambda>r. \<not> is_str (claim_area_ha r)) rows"

definition has_columns :: "store \<Rightarrow> string list \<Rightarrow> bool" where
  "has_columns s cols \<longleftrightarrow> df s = [] \<or> list_all (\<lambda>c. c \<in> set (df_columns s)) cols"

text \<open>What \<open>get_claims\<close> keeps of a key of the query string: its value, unless empty.\<close>

definition arg :: "(string \<times> string) list \<Rightarrow> string \<Rightarrow> string option" where
  "arg args k = (case map_of args k of None \<Rightarrow> None | Some v \<Rightarrow> if v \<noteq> [] then Some v else None)"

text \<open>A column has no null.\<close>

definition no_null :: "(row \<Rightarrow> string option) \<Rightarrow> row list \<Rightarrow> bool" where
  "no_null col rows = list_all (\<lambda>r. col r \<noteq> None) rows"

text \<open>What the specification asks of the list for one field.\<close>

definition sorted_distinct_values :: "(row \<Rightarrow> string option) \<Rightarrow> row list \<Rightarrow> string option list \<Rightarrow> bool" where
  "sorted_distinct_values col rows xs \<longleftrightarrow>
     sorted (List.map_filter id xs) \<and> distinct xs \<and> set xs = set (map col rows)"

text \<open>
  The columns that the two grouped rollups read, and the ones that the rollups and
  the performance metrics read together.
\<close>

definition grouped_columns :: "string list" where
  "grouped_columns = [''state'', ''tribal_community'', ''claim_id'', ''claim_area_ha'',
                      ''status'', ''fra_type'']"

definition aggregate_columns :: "string list" where
  "aggregate_columns = grouped_columns @ [''field_verification_done'',
                                          ''gps_coordinates_verified'']"

definition timeline_columns :: "string list" where
  "timeline_columns = [''submission_date'', ''claim_id'', ''claim_area_ha'', ''status'']"

text \<open>The count under a key of an entry, and its counts by type.\<close>

definition count_of :: "entry \<Rightarrow> string \<Rightarrow> nat" where
  "count_of e k = (case map_of e k of Some (Count n) \<Rightarrow> n | _ \<Rightarrow> 0)"

definition types_of :: "entry \<Rightarrow> (string \<times> nat) list" where
  "types_of e = (case map_of e ''fra_type'' of Some (Types ts) \<Rightarrow> ts | _ \<Rightarrow> [])"

text \<open>
  What the rollup says of one group \<open>g\<close>: under \<open>total_claims\<close> the count of its
  records, under \<open>claim_area_ha\<close> the sum of its areas that are not null, under
  \<open>approved_claims\<close> the count of its approved records, and under \<open>fra_type\<close>, for each
  type of the group, the count of its records.
\<close>

definition entry_ok :: "lib \<Rightarrow> row list \<Rightarrow> entry \<Rightarrow> bool" where
  "entry_ok lib g e \<longleftrightarrow>
     map fst e = [''total_claims'', ''claim_area_ha'', ''approved_claims'', ''fra_type''] \<and>
     map_of e ''total_claims'' = Some (Count (length g)) \<and>
     map_of e ''claim_area_ha'' =
       Some (Area (Number (grp_sum lib (nums (map claim_area_ha g))))) \<and>
     map_of e ''approved_claims'' =
       Some (Count (length (filter (\<lambda>r. status r = Some ''approved'') g))) \<and>
     map_of e ''fra_type'' = Some (Types (types_of e)) \<and>
     distinct (map fst (types_of e)) \<and>
     set (map fst (types_of e)) = set (List.map_filter fra_type g) \<and>
     list_all (\<lambda>(t, n). n = length (filter (\<lambda>r. fra_type r = Some t) g)) (types_of e)"

text \<open>
  What it says of the whole result: one entry for each value of the key that is not
  null, in ascending order, each entry that of its group; and the counts add up to
  the number of the records when every record has a key.
\<close>

definition rollup_ok ::
  "lib \<Rightarrow> (row \<Rightarrow> string option) \<Rightarrow> row list \<Rightarrow> (string \<times> entry) list \<Rightarrow> bool" where
  "rollup_ok lib key rows res \<longleftrightarrow>
     sorted (map fst res) \<and> distinct (map fst res) \<and>
     set (map fst res) = set (List.map_filter key rows) \<and>
     list_all (\<lambda>(k, e). entry_ok lib (filter (\<lambda>r. key r = Some k) rows) e) res \<and>
     (no_null key rows \<longrightarrow>
        sum_list (map (\<lambda>(k, e). count_of e ''total_claims'') res) = length rows)"

text \<open>
  \<open>pd.to_datetime\<close> accepts the dates of a dataset when it does not raise on the strings
  of the column; \<open>the_reading\<close> is then what it makes of each of them. The date of a
  record is the timestamp of its \<open>submission_date\<close>: none when the \<open>submission_date\<close> is
  missing, or is a string that pandas reads as \<open>NaT\<close>. Its year and its month are those of
  its date.
\<close>

definition dates_accepted :: "(string list \<Rightarrow> string + reading) \<Rightarrow> row list \<Rightarrow> bool" where
  "dates_accepted to_datetime rows \<longleftrightarrow>
     date_strings rows = [] \<or>
     (case to_datetime (date_strings rows) of Inl msg \<Rightarrow> False | Inr rd \<Rightarrow> True)"

definition the_reading :: "(string list \<Rightarrow> string + reading) \<Rightarrow> row list \<Rightarrow> reading" where
  "the_reading to_datetime rows =
     (case to_datetime (date_strings rows) of Inl msg \<Rightarrow> (\<lambda>s. None) | Inr rd \<Rightarrow> rd)"

definition date_of :: "reading \<Rightarrow> row \<Rightarrow> timestamp option" where
  "date_of rd r =
     (case submission_date r of NaT \<Rightarrow> None | Raw s \<Rightarrow> rd s | Time t \<Rightarrow> Some t)"

definition year_of :: "reading \<Rightarrow> row \<Rightarrow> int option" where
  "year_of rd r = map_option ts_year (date_of rd r)"

definition month_of :: "reading \<Rightarrow> row \<Rightarrow> nat option" where
  "month_of rd r = map_option ts_month (date_of rd r)"

text \<open>
  What the timeline says of the records \<open>g\<close> of one year, or of one month of the current
  year: their count, the sum of their areas that are not null and, for a year, the
  count of the approved among them.
\<close>

definition year_entry_ok :: "lib \<Rightarrow> row list \<Rightarrow> year_entry \<Rightarrow> bool" where
  "year_entry_ok lib g e \<longleftrightarrow>
     y_claims_submitted e = length g \<and>
     y_claim_area_ha e = Number (grp_sum lib (nums (map claim_area_ha g))) \<and>
     y_claims_approved e = length (filter (\<lambda>r. status r = Some ''approved'') g)"

definition month_entry_ok :: "lib \<Rightarrow> row list \<Rightarrow> month_entry \<Rightarrow> bool" where
  "month_entry_ok lib g e \<longleftrightarrow>
     mo_claims_submitted e = length g \<and>
     mo_claim_area_ha e = Number (grp_sum lib (nums (map claim_area_ha g)))"

text \<open>
  What it says of the whole result: the yearly rollup has one entry for each year in
  which a record has its date, in ascending order, each entry that of the records of
  the year; the monthly rollup likewise for the months of the records of the current
  year; and the records counted in the years are the records that have a date, so that
  a record without one is counted nowhere.
\<close>

definition timeline_ok :: "lib \<Rightarrow> reading \<Rightarrow> int \<Rightarrow> row list \<Rightarrow> timeline \<Rightarrow> bool" where
  "timeline_ok lib rd current_year rows tm \<longleftrightarrow>
     sorted (map fst (yearly tm)) \<and> distinct (map fst (yearly tm)) \<and>
     set (map fst (yearly tm)) = set (List.map_filter (year_of rd) rows) \<and>
     list_all (\<lambda>(y, e). year_entry_ok lib (filter (\<lambda>r. year_of rd r = Some y) rows) e)
       (yearly tm) \<and>
     sorted (map fst (monthly tm)) \<and> distinct (map fst (monthly tm)) \<and>
     set (map fst (monthly tm)) =
       set (List.map_filter (month_of rd)
              (filter (\<lambda>r. year_of rd r = Some current_year) rows)) \<and>
     list_all (\<lambda>(m, e). month_entry_ok lib
                  (filter (\<lambda>r. year_of rd r = Some current_year \<and> month_of rd r = Some m) rows) e)
       (monthly tm) \<and>
     sum_list (map (\<lambda>(y, e). y_claims_submitted e) (yearly tm)) =
       length (filter (\<lambda>r. date_of rd r \<noteq> None) rows)"

section \<open>The aggregates of a numeric frame\<close>

text \<open>
  What the aggregates compute on a frame whose area column is numeric, written out for
  the proofs: first the entry that \<open>summarise\<close> computes for a group.
\<close>

definition numeric_entry :: "lib \<Rightarrow> row list \<Rightarrow> entry" where
  "numeric_entry lib g =
     [(''total_claims'', Count (count_notnull (map claim_id g))),
      (''claim_area_ha'', Area (Number (grp_sum lib (nums (map claim_area_ha g))))),
      (''approved_claims'', Count (length (filter (\<lambda>r. status r = Some ''approved'') g))),
      (''fra_type'', Types (value_counts (map fra_type g)))]"

text \<open>The row as the timeline query leaves it in the frame.\<close>

definition prepared :: "reading \<Rightarrow> row \<Rightarrow> row" where
  "prepared rd r =
     add_year_month (r\<lparr>submission_date := convert_date rd (submission_date r)\<rparr>)"

text \<open>
  The two rollups that the timeline query computes on a frame whose area column is
  numeric, from the rows as it has left them: the entry of a group, and the entries of
  the years and of the months of the current year.
\<close>

definition numeric_year_entry :: "lib \<Rightarrow> row list \<Rightarrow> year_entry" where
  "numeric_year_entry lib g =
     \<lparr>y_claims_submitted = count_notnull (map claim_id g),
      y_claim_area_ha = Number (grp_sum lib (nums (map claim_area_ha g))),
      y_claims_approved = length (filter (\<lambda>r. status r = Some ''approved'') g)\<rparr>"

definition numeric_month_entry :: "lib \<Rightarrow> row list \<Rightarrow> month_entry" where
  "numeric_month_entry lib g =
     \<lparr>mo_claims_submitted = count_notnull (map claim_id g),
      mo_claim_area_ha = Number (grp_sum lib (nums (map claim_area_ha g)))\<rparr>"

definition numeric_timeline :: "lib \<Rightarrow> int \<Rightarrow> row list \<Rightarrow> timeline" where
  "numeric_timeline lib current_year rows =
     \<lparr>yearly =
        map (\<lambda>k. (k, numeric_year_entry lib (filter (\<lambda>r. year_key r = Some k) rows)))
          (group_keys year_key rows),
      monthly =
        map (\<lambda>k. (k, numeric_month_entry lib
                       (filter (\<lambda>r. month_key r = Some k)
                          (filter (\<lambda>r. submission_year r = Some (Some current_year)) rows))))
          (group_keys month_key
             (filter (\<lambda>r. submission_year r = Some (Some current_year)) rows))\<rparr>"

section \<open>Example data\<close>

text \<open>
  The dataset of the example of the specification: A and B in the state X, approved
  and submitted, with 2 and 3 ha; C in the state Y, approved, with no area and no date.
  \<open>demo_float\<close>, \<open>demo_datetime\<close>, \<open>demo_geojson\<close> and \<open>demo_analytics\<close> stand for
  \<open>float\<close>, \<open>pd.to_datetime\<close> and the two files on the strings that the examples use.
\<close>

definition demo_float :: "string \<Rightarrow> string + pyfloat" where
  "demo_float s =
     (if s = ''2.5'' then Inr (Fin (5 / 2))
      else if s = ''3'' then Inr (Fin 3)
      else if s = ''nan'' then Inr NaN
      else if s = ''inf'' then Inr PosInf
      else if s = ''-inf'' then Inr NegInf
      else Inl (''could not convert string to float: '' @ q @ s @ q))"

definition demo_reading :: reading where
  "demo_reading s =
     (if s = ''2024-01-15'' then Some (Timestamp 2024 1 15)
      else if s = ''2023-11-02'' then Some (Timestamp 2023 11 2)
      else None)"

definition demo_datetime :: "string list \<Rightarrow> string + reading" where
  "demo_datetime ss =
     (case filter (\<lambda>s. s \<notin> set [''2024-01-15'', ''2023-11-02'', []]) ss of
        [] \<Rightarrow> Inr demo_reading
      | s # rest \<Rightarrow> Inl (''Unknown datetime string format, unable to parse: '' @ s))"

text \<open>
  The arithmetic of the examples is exact, and \<open>round(x, 2)\<close> rounds the exact value to
  the nearest multiple of 1/100, a tie to the even one: on the numbers of the examples
  the doubles give the same results. The sums of a column of dtype \<open>object\<close> add the
  cells from the left with Python's \<open>+\<close>: numbers add, strings concatenate, a number
  and a string raise TypeError.
\<close>

definition round_half_even :: "rat \<Rightarrow> int" where
  "round_half_even x =
     (let f = \<lfloor>x\<rfloor>; d = x - of_int f
      in if d < 1 / 2 then f else if 1 / 2 < d then f + 1 else if even f then f else f + 1)"

definition round2 :: "rat \<Rightarrow> rat" where
  "round2 x = of_int (round_half_even (x * 100)) / 100"

definition add_error_float_str :: error where
  "add_error_float_str =
     TypeError (''unsupported operand type(s) for +: '' @ q @ ''float'' @ q @ '' and ''
                @ q @ ''str'' @ q)"

definition add_error_str_float :: error where
  "add_error_str_float =
     TypeError (''can only concatenate str (not '' @ [CHR 0x22] @ ''float'' @ [CHR 0x22]
                @ '') to str'')"

fun py_add :: "cell \<Rightarrow> cell \<Rightarrow> error + cell" where
  "py_add (Num a) (Num b) = Inr (Num (a + b))"
| "py_add (Str a) (Str b) = Inr (Str (a @ b))"
| "py_add (Str a) c = Inl add_error_str_float"
| "py_add c (Str b) = Inl add_error_float_str"
| "py_add Null c = Inr Null"
| "py_add c Null = Inr Null"

fun add_all :: "cell \<Rightarrow> cell list \<Rightarrow> error + cell" where
  "add_all a [] = Inr a"
| "add_all a (c # cs) = (case py_add a c of Inl e \<Rightarrow> Inl e | Inr t \<Rightarrow> add_all t cs)"

fun total_of :: "cell \<Rightarrow> total" where
  "total_of (Num a) = Number (Fin a)"
| "total_of (Str t) = Text t"
| "total_of Null = Number NaN"

definition python_sum :: "cell list \<Rightarrow> error + total" where
  "python_sum cs =
     (case cs of
        [] \<Rightarrow> Inr (Number (Fin 0))
      | c # cs' \<Rightarrow> (case add_all c cs' of Inl e \<Rightarrow> Inl e | Inr t \<Rightarrow> Inr (total_of t)))"

fun fill0 :: "cell \<Rightarrow> cell" where
  "fill0 Null = Num 0"
| "fill0 c = c"

definition mean_error :: error where
  "mean_error = TypeError ''Could not convert string to numeric''"

definition demo_lib :: lib where
  "demo_lib =
     \<lparr>grp_sum = (\<lambda>xs. Fin (sum_list xs)),
      np_sum = (\<lambda>xs. Fin (sum_list xs)),
      np_mean = (\<lambda>xs n. Fin (sum_list xs / of_nat n)),
      obj_grp_sum = (\<lambda>cs. python_sum (filter (\<lambda>c. c \<noteq> Null) cs)),
      obj_sum = (\<lambda>cs. python_sum (map fill0 cs)),
      obj_mean = (\<lambda>cs. Inl mean_error),
      percent = (\<lambda>a b. of_nat a / of_nat b * 100),
      py_round = round2,
      np_round = (\<lambda>x. Fin (round2 x))\<rparr>"

definition rowA :: row where
  "rowA = \<lparr>claim_id = Some ''A'', state = Some ''X'', district = Some ''D1'',
           village = Some ''V1'', fra_type = Some ''IFR'', status = Some ''approved'',
           tribal_community = Some ''Gond'', claim_area_ha = Num 2,
           submission_date = Raw ''2024-01-15'', field_verification_done = True,
           gps_coordinates_verified = False, submission_year = None,
           submission_month = None, geometry = ''point A''\<rparr>"

definition rowB :: row where
  "rowB = rowA\<lparr>claim_id := Some ''B'', status := Some ''submitted'',
               claim_area_ha := Num 3, geometry := ''point B''\<rparr>"

definition rowC :: row where
  "rowC = rowA\<lparr>claim_id := Some ''C'', state := Some ''Y'', claim_area_ha := Null,
               submission_date := NaT, geometry := ''point C''\<rparr>"

definition rowD :: row where
  "rowD = rowA\<lparr>claim_id := None, state := None, claim_area_ha := Str ''n/a'',
               fra_type := Some ''CFR''\<rparr>"

definition demo_keys :: "string list" where
  "demo_keys = [''claim_id'', ''state'', ''district'', ''village'', ''fra_type'', ''status'',
                ''tribal_community'', ''claim_area_ha'', ''submission_date'',
                ''field_verification_done'', ''gps_coordinates_verified'']"

definition demo_columns :: "string list" where
  "demo_columns = demo_keys @ [''geometry'']"

definition raw_of :: "row \<Rightarrow> raw_feature" where
  "raw_of r = \<lparr>rf_properties = Some (props.truncate r), rf_geometry = Some (geometry r),
               rf_keys = demo_keys\<rparr>"

definition demo_store :: store where
  "demo_store = \<lparr>claims_data = map raw_of [rowA, rowB, rowC], analytics_data = [],
                 df = [rowA, rowB, rowC], df_columns = demo_columns\<rparr>"

definition empty_store :: store where
  "empty_store = \<lparr>claims_data = [], analytics_data = [], df = [], df_columns = []\<rparr>"

definition one_store :: store where
  "one_store = \<lparr>claims_data = [raw_of rowA], analytics_data = [], df = [rowA],
                df_columns = demo_columns\<rparr>"

text \<open>A and a record whose area is the string \<open>n/a\<close>; A and B with that string.\<close>

definition bad_area_store :: store where
  "bad_area_store = \<lparr>claims_data = [], analytics_data = [], df = [rowA, rowD],
                     df_columns = demo_columns\<rparr>"

definition mixed_area_store :: store where
  "mixed_area_store =
     \<lparr>claims_data = [], analytics_data = [],
      df = [rowA, rowB\<lparr>claim_area_ha := Str ''n/a''\<rparr>], df_columns = demo_columns\<rparr>"

text \<open>
  A and B from features none of which has the key \<open>claim_area_ha\<close>, and A from a
  feature without the key \<open>submission_date\<close>: the frame has no such column.
\<close>

definition no_area_store :: store where
  "no_area_store =
     \<lparr>claims_data = [], analytics_data = [],
      df = [rowA\<lparr>claim_area_ha := Null\<rparr>, rowB\<lparr>claim_area_ha := Null\<rparr>],
      df_columns = filter (\<lambda>c. c \<noteq> ''claim_area_ha'') demo_columns\<rparr>"

definition no_date_store :: store where
  "no_date_store =
     \<lparr>claims_data = [], analytics_data = [], df = [rowA\<lparr>submission_date := NaT\<rparr>],
      df_columns = filter (\<lambda>c. c \<noteq> ''submission_date'') demo_columns\<rparr>"

definition unreadable_store :: store where
  "unreadable_store =
     \<lparr>claims_data = [], analytics_data = [],
      df = [rowA, rowB\<lparr>submission_date := Raw ''soon''\<rparr>], df_columns = demo_columns\<rparr>"

definition demo_criteria :: filters where
  "demo_criteria = [(''state'', PStr ''X''), (''claim_area_min'', PStr ''2.5''),
                    (''village'', PStr []), (''tribal_community'', PNone),
                    (''sort'', PStr ''asc'')]"

definition demo_geojson :: "string \<Rightarrow> error + raw_feature list option" where
  "demo_geojson path =
     (if path = ''output/fra_claims.geojson'' then Inr (Some (map raw_of [rowA, rowB, rowC]))
      else if path = ''output/no_features.geojson'' then Inr None
      else if path = ''output/broken.geojson''
        then Inl (JSONDecodeError ''Expecting value: line 1 column 1 (char 0)'')
      else Inl (OSError (''[Errno 2] No such file or directory: '' @ q @ path @ q)))"

definition demo_analytics :: "string \<Rightarrow> error + analytics" where
  "demo_analytics path =
     (if path = ''output/fra_analytics.json'' then Inr [(''summary'', ''{}'')]
      else Inl (OSError (''[Errno 2] No such file or directory: '' @ q @ path @ q)))"

definition demo_metrics :: metrics where
  "demo_metrics =
     \<lparr>pm_total_claims = 3, pm_approved_claims = 2, pm_pending_claims = 1,
      pm_rejected_claims = 0, pm_approval_rate = 6667 / 100, pm_pending_rate = 3333 / 100,
      pm_total_area_ha = Fin 5, pm_average_claim_size_ha = Fin (5 / 2),
      pm_field_verification_rate = 100, pm_gps_verification_rate = 0\<rparr>"

definition demo_options :: options where
  "demo_options =
     \<lparr>states = [Some ''X'', Some ''Y''], districts = [Some ''D1''], villages = [Some ''V1''],
      fra_types = [Some ''IFR''], statuses = [Some ''approved'', Some ''submitted''],
      tribal_communities = [Some ''Gond'']\<rparr>"

definition demo_entry_X :: entry where
  "demo_entry_X =
     [(''total_claims'', Count 2), (''claim_area_ha'', Area (Number (Fin 5))),
      (''approved_claims'', Count 1), (''fra_type'', Types [(''IFR'', 2)])]"

definition demo_entry_Y :: entry where
  "demo_entry_Y =
     [(''total_claims'', Count 1), (''claim_area_ha'', Area (Number (Fin 0))),
      (''approved_claims'', Count 1), (''fra_type'', Types [(''IFR'', 1)])]"

definition demo_state_summary :: "(string \<times> entry) list" where
  "demo_state_summary = [(''X'', demo_entry_X), (''Y'', demo_entry_Y)]"

definition demo_timeline :: timeline where
  "demo_timeline =
     \<lparr>yearly = [(2024, \<lparr>y_claims_submitted = 2, y_claim_area_ha = Number (Fin 5),
                        y_claims_approved = 1\<rparr>)],
      monthly = [(1, \<lparr>mo_claims_submitted = 2, mo_claim_area_ha = Number (Fin 5)\<rparr>)]\<rparr>"

section \<open>Properties of the filter\<close>

lemma mask_filter_Inr:
  "mask_filter p rows = Inr rs \<Longrightarrow> rs = filter (\<lambda>r. p (claim_area_ha r) = Inr True) rows"
  by (induction rows arbitrary: rs) (auto split: sum.splits if_splits)

lemma mask_filter_total:
  "(\<And>r. r \<in> set rows \<Longrightarrow> \<exists>b. p (claim_area_ha r) = Inr b) \<Longrightarrow> \<exists>rs. mask_filter p rows = Inr rs"
proof (induction rows)
  case Nil
  show ?case by simp
next
  case (Cons r rows)
  from Cons.prems [of r] obtain b where b: "p (claim_area_ha r) = Inr b" by auto
  from Cons.IH Cons.prems obtain rs where "mask_filter p rows = Inr rs" by auto
  with b show ?case by simp
qed

lemma eq_filter_filter: "eq_filter col f k rows = filter (eq_ok col f k) rows"
proof (cases "active f k")
  case None
  then have "eq_ok col f k = (\<lambda>r. True)" by (simp add: fun_eq_iff eq_ok_def)
  with None show ?thesis by (simp add: eq_filter_def)
next
  case (Some v)
  then have "eq_ok col f k = (\<lambda>r. col r = Some v)" by (simp add: fun_eq_iff eq_ok_def)
  with Some show ?thesis by (simp add: eq_filter_def)
qed

lemma cmp_ge_True:
  "cmp_ge c b = Inr True \<longleftrightarrow>
     (\<exists>a. c = Num a \<and> (b = NegInf \<or> (\<exists>m. b = Fin m \<and> m \<le> a)))"
  by (cases "(c, b)" rule: cmp_ge.cases) auto

lemma cmp_le_True:
  "cmp_le c b = Inr True \<longleftrightarrow>
     (\<exists>a. c = Num a \<and> (b = PosInf \<or> (\<exists>m. b = Fin m \<and> a \<le> m)))"
  by (cases "(c, b)" rule: cmp_le.cases) auto

lemma range_min_Inr:
  assumes "range_filter to_float cmp_ge f ''claim_area_min'' rows = Inr rs"
  shows "rs = filter (min_ok to_float f) rows"
proof (cases "active f ''claim_area_min''")
  case None
  then have "min_ok to_float f = (\<lambda>r. True)" by (simp add: fun_eq_iff min_ok_def)
  with None assms show ?thesis by (simp add: range_filter_def)
next
  case (Some v)
  with assms obtain b where b: "to_float v = Inr b"
    and m: "mask_filter (\<lambda>c. cmp_ge c b) rows = Inr rs"
    by (auto simp: range_filter_def split: sum.splits)
  have "min_ok to_float f = (\<lambda>r. cmp_ge (claim_area_ha r) b = Inr True)"
    using Some b by (auto simp: fun_eq_iff min_ok_def cmp_ge_True split: pyfloat.splits cell.splits)
  with mask_filter_Inr [OF m] show ?thesis by simp
qed

lemma range_max_Inr:
  assumes "range_filter to_float cmp_le f ''claim_area_max'' rows = Inr rs"
  shows "rs = filter (max_ok to_float f) rows"
proof (cases "active f ''claim_area_max''")
  case None
  then have "max_ok to_float f = (\<lambda>r. True)" by (simp add: fun_eq_iff max_ok_def)
  with None assms show ?thesis by (simp add: range_filter_def)
next
  case (Some v)
  with assms obtain b where b: "to_float v = Inr b"
    and m: "mask_filter (\<lambda>c. cmp_le c b) rows = Inr rs"
    by (auto simp: range_filter_def split: sum.splits)
  have "max_ok to_float f = (\<lambda>r. cmp_le (claim_area_ha r) b = Inr True)"
    using Some b by (auto simp: fun_eq_iff max_ok_def cmp_le_True split: pyfloat.splits cell.splits)
  with mask_filter_Inr [OF m] show ?thesis by simp
qed

lemma matches_Nil: "matches to_float [] r"
  by (simp add: matches_def eq_ok_def min_ok_def max_ok_def active_def)

lemma apply_filters_Inr:
  assumes "apply_filters to_float filters rows = Inr rs"
  shows "rs = filter (matches to_float (filters_or_empty filters)) rows"
proof (cases filters)
  case None
  with assms show ?thesis by (simp add: apply_filters_def filters_or_empty_def matches_Nil)
next
  case (Some f)
  show ?thesis
  proof (cases "f = []")
    case True
    with Some assms show ?thesis by (simp add: apply_filters_def filters_or_empty_def matches_Nil)
  next
    case False
    let ?r6 = "filter (\<lambda>r. eq_ok state f ''state'' r \<and> eq_ok district f ''district'' r \<and>
     eq_ok village f ''village'' r \<and> eq_ok fra_type f ''fra_type'' r \<and>
     eq_ok status f ''status'' r \<and> eq_ok tribal_community f ''tribal_community'' r) rows"
    from assms Some False obtain r7 where
      r7: "range_filter to_float cmp_ge f ''claim_area_min'' ?r6 = Inr r7"
      and rs: "range_filter to_float cmp_le f ''claim_area_max'' r7 = Inr rs"
      by (auto simp: apply_filters_def Let_def eq_filter_filter conj_commute conj_left_commute split: sum.splits)
    from range_min_Inr [OF r7] range_max_Inr [OF rs] Some
    show ?thesis
      by (auto simp: filters_or_empty_def matches_def intro: filter_cong)
  qed
qed

lemma cmp_ge_numeric: "\<not> is_str c \<Longrightarrow> \<exists>b. cmp_ge c x = Inr b"
  by (cases "(c, x)" rule: cmp_ge.cases) auto


lemma numeric_areas_filter: "numeric_areas rows \<Longrightarrow> numeric_areas (filter P rows)"
  by (simp add: numeric_areas_def list_all_iff)

lemma range_min_total:
  assumes "bound_ok to_float f ''claim_area_min''" and "numeric_areas rows"
  shows "\<exists>rs. range_filter to_float cmp_ge f ''claim_area_min'' rows = Inr rs"
proof (cases "active f ''claim_area_min''")
  case None
  then show ?thesis by (simp add: range_filter_def)
next
  case (Some v)
  with assms(1) obtain b where b: "to_float v = Inr b"
    by (auto simp: bound_ok_def split: sum.splits)
  have "\<exists>rs. mask_filter (\<lambda>c. cmp_ge c b) rows = Inr rs"
    using assms(2) by (intro mask_filter_total cmp_ge_numeric) (simp add: numeric_areas_def list_all_iff)
  with Some b show ?thesis by (simp add: range_filter_def)
qed




lemmas filter_eval =
  get_filtered_claims_def apply_filters_def eq_filter_def range_filter_def active_def
  filters_or_empty_def Let_def matches_def eq_ok_def min_ok_def max_ok_def bound_ok_def
  numeric_areas_def to_feature_def

lemmas demo_eval =
  demo_store_def empty_store_def demo_float_def demo_criteria_def rowA_def rowB_def rowC_def


text \<open>
  An infinite bound is a bound like another: under \<open>claim_area_max = inf\<close> every record
  with a numeric area is kept, and C, whose area is null, is not.
\<close>

lemma infinite_bound_keeps_the_numeric_areas:
  "fst (get_filtered_claims demo_float (Some [(''claim_area_max'', PStr ''inf'')]) demo_store) =
     Inr \<lparr>c_type = ''FeatureCollection'', c_features = map to_feature [rowA, rowB],
          c_properties =
            Some \<lparr>m_total_claims = 2,
                  m_filters_applied = [(''claim_area_max'', PStr ''inf'')]\<rparr>\<rparr>"
  by (simp add: filter_eval demo_eval)

section \<open>The metadata of the filter result\<close>

text \<open>
  C5, as stated, fails on the empty dataset: the guard at the head of
  \<open>get_filtered_claims\<close> returns the bare collection \<open>{"type": .., "features": []}\<close>, with no
  \<open>properties\<close> key, so neither \<open>total_claims\<close> nor \<open>filters_applied\<close> is there.
\<close>

theorem filter_metadata_counterexample:
  "fst (get_filtered_claims demo_float (Some demo_criteria) empty_store) =
     Inr \<lparr>c_type = ''FeatureCollection'', c_features = [], c_properties = None\<rparr>"
  by (simp add: get_filtered_claims_def empty_store_def)

text \<open>
  C5, amended: for every non-empty dataset and every criteria mapping, a result of
  the filter carries \<open>total_claims\<close>, the number of the features it returns (which are the
  matching records), and \<open>filters_applied\<close>, the criteria mapping as it was passed (the
  empty mapping when none was passed).
\<close>

theorem filter_metadata_on_nonempty_dataset:
  assumes "df s \<noteq> []"
    and "fst (get_filtered_claims to_float filters s) = Inr res"
  shows "c_properties res =
           Some \<lparr>m_total_claims = length (c_features res),
                 m_filters_applied = filters_or_empty filters\<rparr>
         \<and> c_features res =
             map to_feature (filter (matches to_float (filters_or_empty filters)) (df s))"
  using assms
  by (auto simp: get_filtered_claims_def Let_def split: sum.splits dest: apply_filters_Inr)

text \<open>The amended C5 at the store of three records, with no criteria.\<close>

theorem filter_metadata_on_nonempty_dataset_witness:
  "df demo_store \<noteq> [] \<and>
   fst (get_filtered_claims demo_float None demo_store) =
     Inr \<lparr>c_type = ''FeatureCollection'', c_features = map to_feature [rowA, rowB, rowC],
          c_properties = Some \<lparr>m_total_claims = 3, m_filters_applied = []\<rparr>\<rparr>"
  using filter_metadata_on_nonempty_dataset
    [of demo_store demo_float None
        "\<lparr>c_type = ''FeatureCollection'', c_features = map to_feature [rowA, rowB, rowC],
          c_properties = Some \<lparr>m_total_claims = 3, m_filters_applied = []\<rparr>\<rparr>"]
  by (simp add: filter_eval demo_eval)

section \<open>Performance metrics on the empty dataset\<close>

lemmas perf_eval =
  get_performance_metrics_def series_sum_def series_mean_def rate_def round2_def
  round_half_even_def pending_statuses_def object_column_def demo_lib_def python_sum_def
  demo_columns_def demo_keys_def

lemma demo_performance_metrics:
  "fst (get_performance_metrics demo_lib demo_store) = Inr (Some demo_metrics)"
  by code_simp

text \<open>
  C4, as stated, fails: on the dataset with zero records the guard at the head of
  \<open>get_performance_metrics\<close> returns the empty dict, which has none of the ten keys, so
  there is no rate in it that could be 0.
\<close>

theorem performance_on_empty_counterexample:
  "fst (get_performance_metrics demo_lib empty_store) = Inr None"
  by (simp add: get_performance_metrics_def empty_store_def)

text \<open>
  C4, amended: when the dataset has zero records, the performance-metrics operation
  returns the empty mapping, without raising and without touching the store; the
  structure of the ten fields is returned for a non-empty dataset only, so that
  \<open>total_claims\<close> is positive in it and the branch \<open>else 0\<close> of the rates is never taken.
\<close>

theorem performance_on_empty_is_empty_mapping:
  "(df s = [] \<longrightarrow> get_performance_metrics lib s = (Inr None, s)) \<and>
   (fst (get_performance_metrics lib s) = Inr (Some m) \<longrightarrow>
      df s \<noteq> [] \<and> pm_total_claims m = length (df s) \<and> 0 < pm_total_claims m)"
proof (rule conjI; rule impI)
  assume "df s = []"
  then show "get_performance_metrics lib s = (Inr None, s)"
    by (simp add: get_performance_metrics_def)
next
  assume m: "fst (get_performance_metrics lib s) = Inr (Some m)"
  then have ne: "df s \<noteq> []"
    by (auto simp: get_performance_metrics_def)
  with m have "pm_total_claims m = length (df s)"
    by (auto simp: get_performance_metrics_def Let_def split: sum.splits if_splits)
  with ne show "df s \<noteq> [] \<and> pm_total_claims m = length (df s) \<and> 0 < pm_total_claims m"
    by simp
qed

text \<open>The amended C4 at the empty store and at the store of three records.\<close>

theorem performance_on_empty_is_empty_mapping_witness:
  "df empty_store = [] \<and> get_performance_metrics demo_lib empty_store = (Inr None, empty_store) \<and>
   fst (get_performance_metrics demo_lib demo_store) = Inr (Some demo_metrics) \<and>
   pm_total_claims demo_metrics = 3"
  using performance_on_empty_is_empty_mapping [of empty_store demo_lib demo_metrics]
    performance_on_empty_is_empty_mapping [of demo_store demo_lib demo_metrics]
    demo_performance_metrics
  by (simp add: empty_store_def demo_metrics_def)

section \<open>Construction\<close>

text \<open>
  C9: the construction of the store from two file paths always yields a store. If the
  claims file or the statistics file cannot be read or parsed, or the claims document
  has no \<open>features\<close> key, or one of its features lacks \<open>properties\<close> or \<open>geometry\<close>, the
  store has zero records and the empty statistics, and the log holds the one line
  \<open>Error loading FRA data: e\<close>; no error reaches the caller.
\<close>

theorem construction_falls_back_to_empty:
  assumes "read_geojson geojson_file = Inl e1 \<or> read_analytics analytics_file = Inl e2 \<or>
           read_geojson geojson_file = Inr None \<or>
           (\<exists>fs. read_geojson geojson_file = Inr (Some fs) \<and> build_rows fs = Inl e3)"
  shows "\<exists>e. load_data read_geojson read_analytics geojson_file analytics_file =
               (\<lparr>claims_data = [], analytics_data = [], df = [], df_columns = []\<rparr>, [ErrorLoading e])"
  using assms
  by (auto simp: load_data_def load_failed_def split: sum.splits option.splits)

text \<open>C9 at a statistics file that does not exist, the claims file being fine.\<close>

theorem construction_falls_back_to_empty_witness:
  "demo_analytics ''nowhere.json'' =
     Inl (OSError (''[Errno 2] No such file or directory: '' @ q @ ''nowhere.json'' @ q)) \<and>
   (\<exists>e. load_data demo_geojson demo_analytics ''output/fra_claims.geojson'' ''nowhere.json'' =
          (\<lparr>claims_data = [], analytics_data = [], df = [], df_columns = []\<rparr>, [ErrorLoading e]))"
  using construction_falls_back_to_empty
    [of demo_geojson "''output/fra_claims.geojson''" "OSError []" demo_analytics
        "''nowhere.json''"
        "OSError (''[Errno 2] No such file or directory: '' @ q @ ''nowhere.json'' @ q)"
        "OSError []"]
  by (simp add: demo_analytics_def)

text \<open>
  When both files are read, the frame holds one row for each feature and the columns
  are the keys of the features and \<open>geometry\<close>.
\<close>

lemma construction_of_the_example:
  "load_data demo_geojson demo_analytics ''output/fra_claims.geojson''
     ''output/fra_analytics.json'' =
   (demo_store\<lparr>analytics_data := [(''summary'', ''{}'')]\<rparr>, [Loaded 3])"
  by (simp add: load_data_def demo_geojson_def demo_analytics_def raw_of_def
        props.truncate_def props.extend_def row.fields_def frame_columns_def unique_def
        demo_store_def demo_columns_def demo_keys_def rowA_def rowB_def rowC_def)

section \<open>The store after a query\<close>

text \<open>
  The filter works on a copy of the frame, and the lookup, the rollups, the
  performance metrics and the distinct-value listing only read it: each of them
  returns the store it was given.
\<close>

lemma filter_keeps_store: "snd (get_filtered_claims to_float filters s) = s"
  by (simp add: get_filtered_claims_def Let_def split: sum.splits)

lemma lookup_keeps_store: "snd (get_claim_details cid s) = s"
  by (simp add: get_claim_details_def split: list.splits)

lemma rollups_keep_store:
  "snd (get_state_wise_summary lib s) = s" "snd (get_tribal_community_analysis lib s) = s"
  by (simp_all add: get_state_wise_summary_def get_tribal_community_analysis_def)

lemma performance_keeps_store: "snd (get_performance_metrics lib s) = s"
  by (simp add: get_performance_metrics_def Let_def split: sum.splits if_splits)

lemma filter_options_keep_store: "snd (get_filter_options s) = s"
  by (simp add: get_filter_options_def split: sum.splits)

lemmas timeline_eval =
  get_timeline_analysis_def yearly_rollup_def monthly_rollup_def groupby_def group_keys_def
  summarise_year_def summarise_month_def group_sum_def count_notnull_def add_year_month_def
  year_key_def month_key_def List.map_filter_def convert_dates_def date_strings_def
  missing_columns_def add_columns_def object_column_def demo_columns_def demo_keys_def
  demo_lib_def demo_reading_def

text \<open>
  C2 fails on the code: \<open>get_timeline_analysis\<close> assigns to \<open>self.df\<close>. At the store of
  the one record A, the store after the call differs from the store before it (the
  date has become a timestamp, the columns \<open>submission_year\<close> and \<open>submission_month\<close>
  have appeared), and the filter with no criteria returns another result after the
  call than before it.
\<close>

theorem timeline_mutates_the_dataset:
  "df (snd (get_timeline_analysis demo_lib demo_datetime 2024 one_store)) =
     [rowA\<lparr>submission_date := Time (Timestamp 2024 1 15),
           submission_year := Some (Some 2024), submission_month := Some (Some 1)\<rparr>]
   \<and> snd (get_timeline_analysis demo_lib demo_datetime 2024 one_store) \<noteq> one_store
   \<and> fst (get_filtered_claims demo_float None
            (snd (get_timeline_analysis demo_lib demo_datetime 2024 one_store)))
       \<noteq> fst (get_filtered_claims demo_float None one_store)"
  by (simp add: timeline_eval one_store_def demo_datetime_def rowA_def filter_eval
        props.truncate_def)

section \<open>Non-numeric bounds at the claims route\<close>

lemma map_of_map_filter_keys:
  assumes "distinct ks" and "k \<in> set ks"
  shows "map_of (List.map_filter (\<lambda>k. map_option (Pair k) (g k)) ks) k = g k"
  using assms
proof (induction ks)
  case Nil
  then show ?case by simp
next
  case (Cons a ks)
  have notin: "\<And>j. j \<notin> set ks \<Longrightarrow>
      map_of (List.map_filter (\<lambda>k. map_option (Pair k) (g k)) ks) j = None"
    by (auto simp: map_of_eq_None_iff List.map_filter_def image_iff)
  show ?case
  proof (cases "a = k")
    case True
    with Cons.prems notin [of k] show ?thesis
      by (cases "g k") (auto simp: List.map_filter_def)
  next
    case False
    with Cons show ?thesis
      by (cases "g a") (auto simp: List.map_filter_def)
  qed
qed

lemma request_filters_alt:
  "request_filters args =
     List.map_filter (\<lambda>k. map_option (Pair k) (map_option PStr (arg args k))) filter_keys"
  unfolding request_filters_def arg_def
  by (rule arg_cong [where f = "\<lambda>f. List.map_filter f filter_keys"])
     (auto simp: fun_eq_iff split: option.splits)

lemma active_request_filters:
  assumes "k \<in> set filter_keys"
  shows "active (request_filters args) k = arg args k"
proof -
  have "distinct filter_keys" by (simp add: filter_keys_def)
  from map_of_map_filter_keys [OF this assms]
  have "map_of (request_filters args) k = map_option PStr (arg args k)"
    by (simp add: request_filters_alt)
  then show ?thesis
    by (cases "arg args k") (auto simp: active_def arg_def split: option.splits if_splits)
qed

lemma range_filter_bad_bound:
  assumes "active f k = Some v" and "to_float v = Inl msg"
  shows "range_filter to_float cmp f k rows = Inl (ValueError msg)"
  using assms by (simp add: range_filter_def)

lemma active_nonempty: "active f k = Some v \<Longrightarrow> f \<noteq> []"
  by (auto simp: active_def)

lemma apply_filters_bad_bound:
  assumes "(active f ''claim_area_min'' = Some v \<or> active f ''claim_area_max'' = Some v)"
    and "to_float v = Inl msg"
  shows "\<exists>e. apply_filters to_float (Some f) rows = Inl e"
proof -
  from assms(1) have ne: "f \<noteq> []" by (auto dest: active_nonempty)
  let ?r6 = "eq_filter tribal_community f ''tribal_community''
                (eq_filter status f ''status''
                  (eq_filter fra_type f ''fra_type''
                    (eq_filter village f ''village''
                      (eq_filter district f ''district''
                        (eq_filter state f ''state'' rows)))))"
  show ?thesis
  proof (cases "range_filter to_float cmp_ge f ''claim_area_min'' ?r6")
    case (Inl e)
    with ne show ?thesis by (simp add: apply_filters_def Let_def)
  next
    case (Inr r7)
    then have "active f ''claim_area_min'' = Some v \<Longrightarrow> False"
      using assms(2) by (simp add: range_filter_def)
    with assms(1) have "active f ''claim_area_max'' = Some v" by blast
    from range_filter_bad_bound [where to_float = to_float, OF this assms(2)] Inr ne show ?thesis
      by (simp add: apply_filters_def Let_def)
  qed
qed

lemma apply_filters_bad_bound_numeric:
  assumes "(active f ''claim_area_min'' = Some v \<or> active f ''claim_area_max'' = Some v)"
    and "to_float v = Inl msg" and "numeric_areas rows"
  shows "\<exists>m. apply_filters to_float (Some f) rows = Inl (ValueError m)"
proof -
  from assms(1) have ne: "f \<noteq> []" by (auto dest: active_nonempty)
  let ?r6 = "eq_filter tribal_community f ''tribal_community''
                (eq_filter status f ''status''
                  (eq_filter fra_type f ''fra_type''
                    (eq_filter village f ''village''
                      (eq_filter district f ''district''
                        (eq_filter state f ''state'' rows)))))"
  have n6: "numeric_areas ?r6"
    using assms(3) by (simp add: eq_filter_filter numeric_areas_filter)
  show ?thesis
  proof (cases "active f ''claim_area_min''")
    case None
    with assms(1) have mx: "active f ''claim_area_max'' = Some v" by simp
    from None have "range_filter to_float cmp_ge f ''claim_area_min'' ?r6 = Inr ?r6"
      by (simp add: range_filter_def)
    with range_filter_bad_bound [where to_float = to_float, OF mx assms(2)] ne show ?thesis
      by (simp add: apply_filters_def Let_def)
  next
    case (Some w)
    show ?thesis
    proof (cases "to_float w")
      case (Inl m)
      from range_filter_bad_bound [where to_float = to_float, OF Some Inl] ne show ?thesis
        by (simp add: apply_filters_def Let_def)
    next
      case (Inr b)
      with Some assms(1,2) have mx: "active f ''claim_area_max'' = Some v" by auto
      from Some Inr have "bound_ok to_float f ''claim_area_min''"
        by (simp add: bound_ok_def)
      from range_min_total [OF this n6] obtain r7 where
        "range_filter to_float cmp_ge f ''claim_area_min'' ?r6 = Inr r7" ..
      with range_filter_bad_bound [where to_float = to_float, OF mx assms(2)] ne show ?thesis
        by (simp add: apply_filters_def Let_def)
    qed
  qed
qed

text \<open>
  C8, as stated, fails on the empty dataset: the guard at the head of
  \<open>get_filtered_claims\<close> returns before the bounds are looked at, so a bound that is not
  a number goes unnoticed and the route answers with the empty collection, not with an
  error.
\<close>

theorem bad_bound_on_empty_dataset_counterexample:
  "demo_float ''abc'' = Inl (''could not convert string to float: '' @ q @ ''abc'' @ q) \<and>
   get_claims demo_float [(''claim_area_min'', ''abc'')] empty_store =
     (Json \<lparr>c_type = ''FeatureCollection'', c_features = [], c_properties = None\<rparr>,
      empty_store)"
  by (simp add: get_claims_def get_filtered_claims_def empty_store_def demo_float_def)

text \<open>
  C8, amended: on a non-empty dataset, if the value supplied for \<open>claim_area_min\<close> or
  \<open>claim_area_max\<close> is not empty and \<open>float\<close> rejects it, the route answers with the
  error 500 whose message is \<open>Error loading claims: \<close> followed by the text of the
  exception, with an empty feature list (no partial result), and the dataset is
  unchanged; when no \<open>claim_area_ha\<close> is a string the exception is the ValueError of
  \<open>float\<close>.
\<close>

theorem bad_bound_is_a_request_error:
  assumes "df s \<noteq> []"
    and "arg args ''claim_area_min'' = Some v \<or> arg args ''claim_area_max'' = Some v"
    and "to_float v = Inl msg"
  shows "(\<exists>e. get_claims to_float args s =
            (ErrorJson 500 (''Error loading claims: '' @ str_exc e) (Some []), s)) \<and>
         (numeric_areas (df s) \<longrightarrow>
            (\<exists>m. get_claims to_float args s =
               (ErrorJson 500 (''Error loading claims: '' @ m) (Some []), s) \<and>
               fst (get_filtered_claims to_float (Some (request_filters args)) s) =
                 Inl (ValueError m)))"
proof -
  let ?f = "request_filters args"
  have act: "active ?f ''claim_area_min'' = Some v \<or> active ?f ''claim_area_max'' = Some v"
    using assms(2) by (simp add: active_request_filters filter_keys_def)
  from apply_filters_bad_bound [where to_float = to_float, OF act assms(3)] obtain e where
    "apply_filters to_float (Some ?f) (df s) = Inl e" ..
  with assms(1) have 1: "get_claims to_float args s =
      (ErrorJson 500 (''Error loading claims: '' @ str_exc e) (Some []), s)"
    by (simp add: get_claims_def get_filtered_claims_def)
  have 2: "\<exists>m. get_claims to_float args s =
               (ErrorJson 500 (''Error loading claims: '' @ m) (Some []), s) \<and>
               fst (get_filtered_claims to_float (Some ?f) s) = Inl (ValueError m)"
    if "numeric_areas (df s)"
  proof -
    from apply_filters_bad_bound_numeric [where to_float = to_float, OF act assms(3) that] obtain m where
      "apply_filters to_float (Some ?f) (df s) = Inl (ValueError m)" ..
    with assms(1) show ?thesis
      by (simp add: get_claims_def get_filtered_claims_def)
  qed
  from 1 2 show ?thesis by blast
qed

text \<open>The amended C8 at the store of three records and the bound \<open>abc\<close>.\<close>

theorem bad_bound_is_a_request_error_witness:
  "df demo_store \<noteq> [] \<and> arg [(''state'', ''X''), (''claim_area_max'', ''abc'')] ''claim_area_max'' = Some ''abc''
   \<and> demo_float ''abc'' = Inl (''could not convert string to float: '' @ q @ ''abc'' @ q)
   \<and> get_claims demo_float [(''state'', ''X''), (''claim_area_max'', ''abc'')] demo_store =
       (ErrorJson 500 (''Error loading claims: could not convert string to float: '' @ q @ ''abc'' @ q)
          (Some []), demo_store)"
  using bad_bound_is_a_request_error
    [of demo_store "[(''state'', ''X''), (''claim_area_max'', ''abc'')]" "''abc''"
        demo_float "''could not convert string to float: '' @ q @ ''abc'' @ q"]
  by (simp add: arg_def demo_float_def demo_store_def get_claims_def request_filters_def
        filter_keys_def List.map_filter_def filter_eval rowA_def rowB_def rowC_def)

section \<open>The distinct-value listing\<close>

lemma set_unique [simp]: "set (unique xs) = set xs"
  by (simp add: unique_def)

lemma distinct_unique [simp]: "distinct (unique xs)"
  by (simp add: unique_def)

lemma map_filter_id_Some: "List.map_filter id (map Some xs) = xs"
  by (induction xs) (simp_all add: List.map_filter_def)

lemma Some_map_filter_id: "None \<notin> set xs \<Longrightarrow> map Some (List.map_filter id xs) = xs"
proof (induction xs)
  case Nil
  show ?case by (simp add: List.map_filter_def)
next
  case (Cons a xs)
  then show ?case by (cases a) (auto simp: List.map_filter_def)
qed

lemma set_map_filter_id: "set (List.map_filter id xs) = {x. Some x \<in> set xs}"
proof (induction xs)
  case Nil
  show ?case by (simp add: List.map_filter_def)
next
  case (Cons a xs)
  then show ?case by (cases a) (auto simp: List.map_filter_def)
qed

lemma distinct_map_filter_id: "distinct xs \<Longrightarrow> distinct (List.map_filter id xs)"
  by (induction xs) (auto simp: List.map_filter_def)

lemma sorted_unique_no_null:
  assumes "no_null col rows"
  shows "\<exists>xs. sorted_unique col rows = Inr xs \<and> sorted_distinct_values col rows xs"
proof -
  let ?u = "unique (map col rows)"
  have nn: "None \<notin> set ?u"
    using assms by (auto simp: no_null_def list_all_iff)
  let ?xs = "map Some (sort (List.map_filter id ?u))"
  have 1: "sorted_unique col rows = Inr ?xs"
    using nn by (simp add: sorted_unique_def py_sorted_def)
  have "set ?xs = set ?u"
  proof (rule set_eqI)
    fix y
    show "y \<in> set ?xs \<longleftrightarrow> y \<in> set ?u"
      using nn by (cases y) (auto simp: set_map_filter_id simp del: set_unique)
  qed
  then have "set ?xs = set (map col rows)" by simp
  moreover have "distinct ?xs"
    by (simp add: distinct_map distinct_map_filter_id)
  moreover have "sorted (List.map_filter id ?xs)"
    by (simp add: map_filter_id_Some)
  ultimately have "sorted_distinct_values col rows ?xs"
    by (simp add: sorted_distinct_values_def)
  with 1 show ?thesis by blast
qed

text \<open>
  C10, as stated, fails in two places. On the empty dataset the route answers with the
  empty dict, not with an empty list for every field. And a field that holds a null
  beside a string makes \<open>sorted\<close> raise, so the route answers with the error 500.
\<close>

theorem filter_options_counterexample:
  "get_filter_options empty_store = (Json None, empty_store) \<and>
   fst (get_filter_options
          \<lparr>claims_data = [], analytics_data = [], df = [rowA, rowC\<lparr>state := None\<rparr>],
            df_columns = demo_columns\<rparr>)
     = ErrorJson 500 (str_exc sort_error) None"
  by (simp add: get_filter_options_def empty_store_def sorted_unique_def py_sorted_def
        unique_def rowA_def rowC_def)

text \<open>
  C10, amended: on a non-empty dataset in which none of the six fields holds a null,
  the distinct-value listing returns, for each of the six fields, the sorted list of
  the distinct values of the field; on an empty dataset it returns the empty mapping,
  not an error. The dataset is unchanged.
\<close>

theorem filter_options_sorted_distinct:
  "(df s = [] \<longrightarrow> get_filter_options s = (Json None, s)) \<and>
   (df s \<noteq> [] \<and> no_null state (df s) \<and> no_null district (df s) \<and> no_null village (df s) \<and>
    no_null fra_type (df s) \<and> no_null status (df s) \<and> no_null tribal_community (df s) \<longrightarrow>
    (\<exists>opts. get_filter_options s = (Json (Some opts), s) \<and>
       sorted_distinct_values state (df s) (states opts) \<and>
       sorted_distinct_values district (df s) (districts opts) \<and>
       sorted_distinct_values village (df s) (villages opts) \<and>
       sorted_distinct_values fra_type (df s) (fra_types opts) \<and>
       sorted_distinct_values status (df s) (statuses opts) \<and>
       sorted_distinct_values tribal_community (df s) (tribal_communities opts)))"
proof (rule conjI; rule impI)
  assume "df s = []"
  then show "get_filter_options s = (Json None, s)"
    by (simp add: get_filter_options_def)
next
  assume a: "df s \<noteq> [] \<and> no_null state (df s) \<and> no_null district (df s) \<and>
    no_null village (df s) \<and> no_null fra_type (df s) \<and> no_null status (df s) \<and>
    no_null tribal_community (df s)"
  from a sorted_unique_no_null [of state "df s"] obtain x1 where
    x1: "sorted_unique state (df s) = Inr x1" "sorted_distinct_values state (df s) x1" by blast
  from a sorted_unique_no_null [of district "df s"] obtain x2 where
    x2: "sorted_unique district (df s) = Inr x2" "sorted_distinct_values district (df s) x2" by blast
  from a sorted_unique_no_null [of village "df s"] obtain x3 where
    x3: "sorted_unique village (df s) = Inr x3" "sorted_distinct_values village (df s) x3" by blast
  from a sorted_unique_no_null [of fra_type "df s"] obtain x4 where
    x4: "sorted_unique fra_type (df s) = Inr x4" "sorted_distinct_values fra_type (df s) x4" by blast
  from a sorted_unique_no_null [of status "df s"] obtain x5 where
    x5: "sorted_unique status (df s) = Inr x5" "sorted_distinct_values status (df s) x5" by blast
  from a sorted_unique_no_null [of tribal_community "df s"] obtain x6 where
    x6: "sorted_unique tribal_community (df s) = Inr x6"
      "sorted_distinct_values tribal_community (df s) x6" by blast
  let ?o = "\<lparr>states = x1, districts = x2, villages = x3, fra_types = x4,
             statuses = x5, tribal_communities = x6\<rparr>"
  from a x1(1) x2(1) x3(1) x4(1) x5(1) x6(1)
  have "get_filter_options s = (Json (Some ?o), s)"
    by (simp add: get_filter_options_def)
  with x1(2) x2(2) x3(2) x4(2) x5(2) x6(2)
  show "\<exists>opts. get_filter_options s = (Json (Some opts), s) \<and>
       sorted_distinct_values state (df s) (states opts) \<and>
       sorted_distinct_values district (df s) (districts opts) \<and>
       sorted_distinct_values village (df s) (villages opts) \<and>
       sorted_distinct_values fra_type (df s) (fra_types opts) \<and>
       sorted_distinct_values status (df s) (statuses opts) \<and>
       sorted_distinct_values tribal_community (df s) (tribal_communities opts)"
    by (intro exI [of _ ?o]) simp
qed

lemma demo_filter_options: "get_filter_options demo_store = (Json (Some demo_options), demo_store)"
  by code_simp

text \<open>The amended C10 at the empty store and at the store of three records.\<close>

theorem filter_options_sorted_distinct_witness:
  "df empty_store = [] \<and> get_filter_options empty_store = (Json None, empty_store) \<and>
   df demo_store \<noteq> [] \<and> no_null state (df demo_store) \<and> no_null district (df demo_store) \<and>
   no_null village (df demo_store) \<and> no_null fra_type (df demo_store) \<and>
   no_null status (df demo_store) \<and> no_null tribal_community (df demo_store) \<and>
   get_filter_options demo_store = (Json (Some demo_options), demo_store) \<and>
   sorted_distinct_values state (df demo_store) (states demo_options)"
  using filter_options_sorted_distinct [of empty_store]
    filter_options_sorted_distinct [of demo_store] demo_filter_options
  by (simp add: empty_store_def no_null_def demo_store_def rowA_def rowB_def rowC_def)

section \<open>Groups\<close>

lemma group_keys_sorted: "sorted (group_keys key rows)"
  by (simp add: group_keys_def)

lemma group_keys_distinct: "distinct (group_keys key rows)"
  by (simp add: group_keys_def)

lemma group_keys_set: "set (group_keys key rows) = set (List.map_filter key rows)"
  by (simp add: group_keys_def)

lemma map_fst_groupby: "map fst (groupby key rows) = group_keys key rows"
  by (simp add: groupby_def comp_def)

lemma agg_map:
  assumes "\<And>k g. (k, g) \<in> set gs \<Longrightarrow> f g = Inr (h g)"
  shows "agg f gs = Inr (map (\<lambda>(k, g). (k, h g)) gs)"
  using assms
proof (induction gs)
  case Nil
  show ?case by simp
next
  case (Cons p gs)
  obtain k g where p: "p = (k, g)" by (cases p)
  from Cons.prems [of k g] p have "f g = Inr (h g)" by simp
  moreover have "agg f gs = Inr (map (\<lambda>(k, g). (k, h g)) gs)"
  proof (rule Cons.IH)
    fix k' g'
    assume "(k', g') \<in> set gs"
    then show "f g' = Inr (h g')" using Cons.prems [of k' g'] by simp
  qed
  ultimately show ?case using p by simp
qed

lemma agg_groupby:
  assumes "\<And>g. f g = Inr (h g)"
  shows "agg f (groupby key rows) =
           Inr (map (\<lambda>k. (k, h (filter (\<lambda>r. key r = Some k) rows))) (group_keys key rows))"
proof -
  have "agg f (groupby key rows) = Inr (map (\<lambda>(k, g). (k, h g)) (groupby key rows))"
    by (rule agg_map) (rule assms)
  then show ?thesis by (simp add: groupby_def comp_def)
qed

text \<open>The rows of the groups, counted together, are the rows whose key is not null.\<close>

lemma sum_list_indicator:
  "distinct ks \<Longrightarrow>
     sum_list (map (\<lambda>k. if x = Some k then (1::nat) else 0) ks) = (if x \<in> Some ` set ks then 1 else 0)"
  by (induction ks) auto

lemma sum_group_sizes:
  assumes "distinct ks"
  shows "sum_list (map (\<lambda>k. length (filter (\<lambda>r. key r = Some k \<and> P r) rows)) ks) =
         length (filter (\<lambda>r. key r \<in> Some ` set ks \<and> P r) rows)"
proof (induction rows)
  case Nil
  show ?case by simp
next
  case (Cons r rows)
  have "sum_list (map (\<lambda>k. length (filter (\<lambda>r. key r = Some k \<and> P r) (r # rows))) ks) =
        sum_list (map (\<lambda>k. (if key r = Some k \<and> P r then 1 else 0) +
                            length (filter (\<lambda>r. key r = Some k \<and> P r) rows)) ks)"
    by (rule arg_cong [where f = sum_list], rule map_cong) auto
  also have "\<dots> = sum_list (map (\<lambda>k. if key r = Some k \<and> P r then 1 else 0) ks) +
        sum_list (map (\<lambda>k. length (filter (\<lambda>r. key r = Some k \<and> P r) rows)) ks)"
    by (simp add: sum_list_addf)
  also have "sum_list (map (\<lambda>k. if key r = Some k \<and> P r then (1::nat) else 0) ks) =
        (if key r \<in> Some ` set ks \<and> P r then 1 else 0)"
  proof (cases "P r")
    case True
    then show ?thesis using sum_list_indicator [OF assms, of "key r"] by simp
  next
    case False
    then show ?thesis by simp
  qed
  finally show ?case using Cons.IH by simp
qed

lemma set_map_filter_key: "set (List.map_filter key rows) = {k. \<exists>r \<in> set rows. key r = Some k}"
proof (induction rows)
  case Nil
  show ?case by (simp add: List.map_filter_def)
next
  case (Cons a rows)
  then show ?case by (cases "key a") (auto simp: List.map_filter_def)
qed

lemma key_in_group_keys:
  "r \<in> set rows \<Longrightarrow> key r \<in> Some ` set (group_keys key rows) \<longleftrightarrow> key r \<noteq> None"
  by (auto simp: group_keys_set set_map_filter_key)

section \<open>Value counts\<close>

lemma count_list_length_filter: "count_list xs x = length (filter (\<lambda>y. y = x) xs)"
  by (induction xs) auto

lemma value_counts_keys:
  "set (map fst (value_counts xs)) = set (List.map_filter id xs)"
  "distinct (map fst (value_counts xs))"
proof -
  let ?vs = "List.map_filter id xs"
  let ?l = "map (\<lambda>v. (v, count_list ?vs v)) (unique ?vs)"
  have vc: "value_counts xs = sort_key (\<lambda>(v, c). - int c) ?l"
    by (simp add: value_counts_def Let_def)
  have l: "map fst ?l = unique ?vs" by (simp add: comp_def)
  have "set (map fst (value_counts xs)) = fst ` set ?l"
    by (simp add: vc)
  also have "\<dots> = set (map fst ?l)" by (simp only: set_map)
  finally show "set (map fst (value_counts xs)) = set ?vs"
    by (simp only: l set_unique)
  have "distinct (map fst ?l)" by (simp only: l distinct_unique)
  then have "distinct ?l \<and> inj_on fst (set ?l)" by (simp only: distinct_map)
  then have "distinct (value_counts xs) \<and> inj_on fst (set (value_counts xs))"
    by (simp add: vc)
  then show "distinct (map fst (value_counts xs))" by (simp only: distinct_map)
qed

lemma value_counts_lookup:
  assumes "Some t \<in> set xs"
  shows "map_of (value_counts xs) t = Some (length (filter (\<lambda>x. x = Some t) xs))"
proof -
  let ?vs = "List.map_filter id xs"
  let ?l = "map (\<lambda>v. (v, count_list ?vs v)) (unique ?vs)"
  have t: "t \<in> set (unique ?vs)"
    using assms by (simp add: set_map_filter_id)
  then have "(t, count_list ?vs t) \<in> set ?l" by auto
  moreover have "set (value_counts xs) = set ?l"
    by (simp add: value_counts_def Let_def)
  ultimately have "(t, count_list ?vs t) \<in> set (value_counts xs)" by simp
  with value_counts_keys(2) [of xs]
  have "map_of (value_counts xs) t = Some (count_list ?vs t)" by simp
  moreover have "count_list ?vs t = length (filter (\<lambda>x. x = Some t) xs)"
  proof (induction xs)
    case Nil
    show ?case by (simp add: List.map_filter_def)
  next
    case (Cons a xs)
    then show ?case by (cases a) (auto simp: List.map_filter_def)
  qed
  ultimately show ?thesis by simp
qed

section \<open>Columns\<close>

lemma missing_columns_Nil:
  "list_all (\<lambda>c. c \<in> set (df_columns s)) cols \<Longrightarrow> missing_columns s cols = []"
  by (simp add: missing_columns_def filter_empty_conv list_all_iff)

lemma has_columns_mem:
  "has_columns s cols \<Longrightarrow> df s \<noteq> [] \<Longrightarrow> c \<in> set cols \<Longrightarrow> c \<in> set (df_columns s)"
  by (auto simp: has_columns_def list_all_iff)

lemma numeric_not_object:
  "numeric_areas rows \<Longrightarrow> \<not> object_column (map claim_area_ha rows)"
  by (simp add: numeric_areas_def object_column_def list_all_iff list_ex_iff)

section \<open>Grouped rollups\<close>

lemma summarise_numeric: "summarise lib False g = Inr (numeric_entry lib g)"
  by (simp add: summarise_def group_sum_def numeric_entry_def)

lemma rollup_numeric_entries:
  "agg (summarise lib False) (groupby key rows) =
     Inr (map (\<lambda>k. (k, numeric_entry lib (filter (\<lambda>r. key r = Some k) rows)))
            (group_keys key rows))"
  by (rule agg_groupby) (rule summarise_numeric)

lemma map_filter_id_map: "List.map_filter id (map f xs) = List.map_filter f xs"
  by (simp add: List.map_filter_def filter_map comp_def)

lemma count_notnull_map: "count_notnull (map f g) = length (filter (\<lambda>r. f r \<noteq> None) g)"
  by (simp add: count_notnull_def filter_map comp_def)

lemma value_counts_entries:
  assumes "(t, n) \<in> set (value_counts (map f g))"
  shows "n = length (filter (\<lambda>r. f r = Some t) g)"
proof -
  let ?xs = "map f g"
  from assms have "t \<in> set (map fst (value_counts ?xs))" by force
  then have "t \<in> set (List.map_filter id ?xs)"
    by (simp only: value_counts_keys(1))
  then have t: "Some t \<in> set ?xs" by (simp add: set_map_filter_id)
  from assms value_counts_keys(2) [of ?xs] have "map_of (value_counts ?xs) t = Some n"
    by simp
  with value_counts_lookup [OF t] have "n = length (filter (\<lambda>x. x = Some t) ?xs)" by simp
  then show ?thesis by (simp add: filter_map comp_def)
qed

lemma entry_ok_numeric:
  assumes "list_all (\<lambda>r. claim_id r \<noteq> None) g"
  shows "entry_ok lib g (numeric_entry lib g)"
proof -
  let ?vc = "value_counts (map fra_type g)"
  have t: "types_of (numeric_entry lib g) = ?vc"
    by (simp add: types_of_def numeric_entry_def)
  have n: "count_notnull (map claim_id g) = length g"
    using assms by (simp add: count_notnull_map list_all_iff)
  have a: "distinct (map fst ?vc)" by (rule value_counts_keys(2))
  have b: "set (map fst ?vc) = set (List.map_filter fra_type g)"
    using value_counts_keys(1) [of "map fra_type g"] by (simp only: map_filter_id_map)
  have c: "list_all (\<lambda>(t, n). n = length (filter (\<lambda>r. fra_type r = Some t) g)) ?vc"
    by (auto simp: list_all_iff dest: value_counts_entries)
  from a b c n show ?thesis
    unfolding entry_ok_def t
    by (simp add: numeric_entry_def del: set_map)
qed

lemma rollup_ok_numeric:
  assumes "no_null claim_id rows"
  shows "rollup_ok lib key rows
           (map (\<lambda>k. (k, numeric_entry lib (filter (\<lambda>r. key r = Some k) rows)))
              (group_keys key rows))"
proof -
  let ?ks = "group_keys key rows"
  let ?grp = "\<lambda>k. filter (\<lambda>r. key r = Some k) rows"
  let ?res = "map (\<lambda>k. (k, numeric_entry lib (?grp k))) ?ks"
  have fst: "map fst ?res = ?ks" by (simp add: comp_def)
  have 2: "sorted (map fst ?res)" "distinct (map fst ?res)"
    "set (map fst ?res) = set (List.map_filter key rows)"
    by (simp_all only: fst group_keys_sorted group_keys_distinct group_keys_set)
  have ids: "list_all (\<lambda>r. claim_id r \<noteq> None) (?grp k)" for k
    using assms by (simp add: no_null_def list_all_iff)
  have 3: "list_all (\<lambda>(k, e). entry_ok lib (?grp k) e) ?res"
    by (simp add: list_all_iff entry_ok_numeric [OF ids])
  have 4: "sum_list (map (\<lambda>(k, e). count_of e ''total_claims'') ?res) = length rows"
    if nn: "no_null key rows"
  proof -
    have "sum_list (map (\<lambda>(k, e). count_of e ''total_claims'') ?res) =
          sum_list (map (\<lambda>k. length (filter (\<lambda>r. key r = Some k \<and> claim_id r \<noteq> None) rows)) ?ks)"
      by (simp add: comp_def numeric_entry_def count_of_def count_notnull_map)
    also have "\<dots> = length (filter (\<lambda>r. key r \<in> Some ` set ?ks \<and> claim_id r \<noteq> None) rows)"
      by (rule sum_group_sizes [OF group_keys_distinct])
    also have "filter (\<lambda>r. key r \<in> Some ` set ?ks \<and> claim_id r \<noteq> None) rows = rows"
      using nn assms by (auto simp: filter_id_conv no_null_def list_all_iff key_in_group_keys)
    finally show ?thesis .
  qed
  from 2 3 4 show ?thesis
    unfolding rollup_ok_def by blast
qed

lemma state_rollup_numeric:
  assumes "numeric_areas (df s)" and "df s \<noteq> []" and "has_columns s grouped_columns"
  shows "get_state_wise_summary lib s =
           (Inr (map (\<lambda>k. (k, numeric_entry lib (filter (\<lambda>r. state r = Some k) (df s))))
                   (group_keys state (df s))), s)"
proof -
  have c: "''state'' \<in> set (df_columns s)"
    by (rule has_columns_mem [OF assms(3,2)]) (simp add: grouped_columns_def)
  have "list_all (\<lambda>c. c \<in> set (df_columns s)) rollup_columns"
    using assms(2,3) by (simp add: has_columns_def grouped_columns_def rollup_columns_def)
  then have m: "missing_columns s rollup_columns = []" by (rule missing_columns_Nil)
  from assms(2) c m numeric_not_object [OF assms(1)] show ?thesis
    by (simp add: get_state_wise_summary_def rollup_numeric_entries)
qed

lemma tribal_rollup_numeric:
  assumes "numeric_areas (df s)" and "df s \<noteq> []" and "has_columns s grouped_columns"
  shows "get_tribal_community_analysis lib s =
           (Inr (map (\<lambda>k. (k, numeric_entry lib
                                 (filter (\<lambda>r. tribal_community r = Some k) (df s))))
                   (group_keys tribal_community (df s))), s)"
proof -
  have c: "''tribal_community'' \<in> set (df_columns s)"
    by (rule has_columns_mem [OF assms(3,2)]) (simp add: grouped_columns_def)
  have "list_all (\<lambda>c. c \<in> set (df_columns s)) rollup_columns"
    using assms(2,3) by (simp add: has_columns_def grouped_columns_def rollup_columns_def)
  then have m: "missing_columns s rollup_columns = []" by (rule missing_columns_Nil)
  from assms(2) c m numeric_not_object [OF assms(1)] show ?thesis
    by (simp add: get_tribal_community_analysis_def rollup_numeric_entries)
qed

lemma rollup_ok_empty: "rollup_ok lib key [] []"
  by (simp add: rollup_ok_def List.map_filter_def)

lemma demo_state_wise_summary:
  "get_state_wise_summary demo_lib demo_store = (Inr demo_state_summary, demo_store)"
  by code_simp

text \<open>
  C7, as stated, fails in two places. The rollup reads the columns \<open>claim_id\<close>,
  \<open>claim_area_ha\<close>, \<open>status\<close> and \<open>fra_type\<close>: at the dataset of A and B from features
  none of which has the key \<open>claim_area_ha\<close> (the area may be absent) the frame has no
  such column and the rollup raises KeyError. And where it returns, at the dataset of
  the three records, the entry of a group has the keys \<open>total_claims\<close>, \<open>claim_area_ha\<close>,
  \<open>approved_claims\<close> and \<open>fra_type\<close>: there is no \<open>total_area_ha\<close> and no \<open>claims_by_type\<close>
  in it. (An area that is a string, which the data model does not have, makes the sum
  of its group raise TypeError when the group holds a number too.)
\<close>

theorem rollup_counterexample:
  "fst (get_state_wise_summary demo_lib no_area_store) =
     Inl (agg_columns_error [''claim_area_ha''])
   \<and> fst (get_state_wise_summary demo_lib demo_store) =
       Inr [(''X'', demo_entry_X), (''Y'', demo_entry_Y)]
   \<and> map fst demo_entry_X =
       [''total_claims'', ''claim_area_ha'', ''approved_claims'', ''fra_type'']
   \<and> map_of demo_entry_X ''total_area_ha'' = None
   \<and> map_of demo_entry_X ''claims_by_type'' = None
   \<and> fst (get_state_wise_summary demo_lib mixed_area_store) = Inl add_error_float_str"
  by code_simp

text \<open>
  C7, amended: for every dataset of the data model (each record carries the attributes
  that may not be absent, among them \<open>claim_id\<close>, and its \<open>claim_area_ha\<close> is a number or
  is missing) in which one record at least carries a \<open>claim_area_ha\<close>, so that the frame
  has the columns that the rollups read, and each group key (\<open>state\<close>,
  \<open>tribal_community\<close>), the grouped rollup maps each distinct group value (a null is no
  group value) to the entry with, under \<open>total_claims\<close>, the count of the records of the
  group; under \<open>claim_area_ha\<close>, the sum (as pandas adds the doubles) of the
  \<open>claim_area_ha\<close> of the group that are not null; under \<open>approved_claims\<close>, the count
  with status approved; and under \<open>fra_type\<close>, the counts by \<open>fra_type\<close>. When every
  record has a group key, the \<open>total_claims\<close> of the groups add up to the number of the
  records. The dataset is unchanged.
\<close>

theorem grouped_rollups:
  assumes "numeric_areas (df s)" and "no_null claim_id (df s)"
    and "has_columns s grouped_columns"
  shows "(\<exists>res. get_state_wise_summary lib s = (Inr res, s) \<and>
                rollup_ok lib state (df s) res) \<and>
         (\<exists>res. get_tribal_community_analysis lib s = (Inr res, s) \<and>
                rollup_ok lib tribal_community (df s) res)"
proof (cases "df s = []")
  case True
  then show ?thesis
    by (simp add: get_state_wise_summary_def get_tribal_community_analysis_def rollup_ok_empty)
next
  case False
  from state_rollup_numeric [OF assms(1) False assms(3)]
    tribal_rollup_numeric [OF assms(1) False assms(3)]
    rollup_ok_numeric [OF assms(2), of lib state]
    rollup_ok_numeric [OF assms(2), of lib tribal_community]
  show ?thesis by simp
qed

text \<open>
  The amended C7 at the store of three records (the example of the specification): X
  has two claims of 5 ha together, one approved; Y has one claim, its area null, and
  the sum 0; the counts add up to 3.
\<close>

theorem grouped_rollups_witness:
  "numeric_areas (df demo_store) \<and> no_null claim_id (df demo_store) \<and>
   has_columns demo_store grouped_columns \<and>
   get_state_wise_summary demo_lib demo_store = (Inr demo_state_summary, demo_store) \<and>
   rollup_ok demo_lib state (df demo_store) demo_state_summary \<and>
   no_null state (df demo_store) \<and>
   sum_list (map (\<lambda>(k, e). count_of e ''total_claims'') demo_state_summary) =
     length (df demo_store)"
proof -
  have n: "numeric_areas (df demo_store)"
    by (simp add: numeric_areas_def demo_eval)
  have nn: "no_null state (df demo_store)" "no_null claim_id (df demo_store)"
    by (simp_all add: no_null_def demo_eval)
  have c: "has_columns demo_store grouped_columns"
    by (simp add: has_columns_def grouped_columns_def demo_store_def demo_columns_def
          demo_keys_def)
  from grouped_rollups [OF n nn(2) c, of demo_lib] demo_state_wise_summary
  have r: "rollup_ok demo_lib state (df demo_store) demo_state_summary" by simp
  with nn have "sum_list (map (\<lambda>(k, e). count_of e ''total_claims'') demo_state_summary) =
      length (df demo_store)"
    by (simp add: rollup_ok_def)
  with n nn c r demo_state_wise_summary show ?thesis by simp
qed

section \<open>Records without a usable area\<close>

lemma to_feature_area [simp]: "claim_area_ha (f_properties (to_feature r)) = claim_area_ha r"
  by (simp add: to_feature_def props.truncate_def)

lemma min_ok_not_null:
  "active f ''claim_area_min'' = Some v \<Longrightarrow> min_ok to_float f r \<Longrightarrow> \<exists>a. claim_area_ha r = Num a"
  by (auto simp: min_ok_def split: sum.splits pyfloat.splits cell.splits)

lemma max_ok_not_null:
  "active f ''claim_area_max'' = Some v \<Longrightarrow> max_ok to_float f r \<Longrightarrow> \<exists>a. claim_area_ha r = Num a"
  by (auto simp: max_ok_def split: sum.splits pyfloat.splits cell.splits)

lemma range_filter_excludes_null:
  assumes "fst (get_filtered_claims to_float (Some f) s) = Inr res"
    and "active f ''claim_area_min'' = Some v \<or> active f ''claim_area_max'' = Some v"
    and "x \<in> set (c_features res)"
  shows "\<exists>a. claim_area_ha (f_properties x) = Num a"
proof -
  from assms(1) have "c_features res =
      map to_feature (filter (matches to_float f) (df s))"
    by (auto simp: get_filtered_claims_def Let_def filters_or_empty_def
             split: if_splits sum.splits dest: apply_filters_Inr)
  with assms(3) obtain r where r: "x = to_feature r" "matches to_float f r" by auto
  from r(2) assms(2) have "\<exists>a. claim_area_ha r = Num a"
    by (auto simp: matches_def dest: min_ok_not_null max_ok_not_null)
  with r(1) show ?thesis by simp
qed

lemma numeric_entry_area:
  "map_of (numeric_entry lib g) ''claim_area_ha'' =
     Some (Area (Number (grp_sum lib (nums (map claim_area_ha g)))))"
  by (simp add: numeric_entry_def)

lemma performance_numeric:
  assumes "numeric_areas (df s)" and "df s \<noteq> []" and "has_columns s aggregate_columns"
  shows "\<exists>m. fst (get_performance_metrics lib s) = Inr (Some m) \<and>
           pm_total_area_ha m =
             round_np lib (np_sum lib (map zero_filled (map claim_area_ha (df s)))) \<and>
           pm_average_claim_size_ha m =
             (if filter (\<lambda>r. claim_area_ha r \<noteq> Null) (df s) = [] then NaN
              else round_np lib
                     (np_mean lib (map zero_filled (map claim_area_ha (df s)))
                        (length (filter (\<lambda>r. claim_area_ha r \<noteq> Null) (df s)))))"
proof -
  have c: "''status'' \<in> set (df_columns s)" "''claim_area_ha'' \<in> set (df_columns s)"
    "''field_verification_done'' \<in> set (df_columns s)"
    "''gps_coordinates_verified'' \<in> set (df_columns s)"
    by (rule has_columns_mem [OF assms(3,2)],
        simp add: aggregate_columns_def grouped_columns_def)+
  have n: "length (filter (\<lambda>c. c \<noteq> Null) (map claim_area_ha (df s))) =
           length (filter (\<lambda>r. claim_area_ha r \<noteq> Null) (df s))"
    by (simp add: filter_map comp_def)
  have m: "series_mean lib (map claim_area_ha (df s)) =
      Inr (if filter (\<lambda>r. claim_area_ha r \<noteq> Null) (df s) = [] then NaN
           else np_mean lib (map zero_filled (map claim_area_ha (df s)))
                  (length (filter (\<lambda>r. claim_area_ha r \<noteq> Null) (df s))))"
    using numeric_not_object [OF assms(1)]
    by (simp only: series_mean_def Let_def n if_False length_0_conv)
  have t: "series_sum lib (map claim_area_ha (df s)) =
      Inr (Number (np_sum lib (map zero_filled (map claim_area_ha (df s)))))"
    using numeric_not_object [OF assms(1)] by (simp only: series_sum_def if_False)
  from assms(2) c show ?thesis
    by (simp add: get_performance_metrics_def Let_def t m)
qed

text \<open>
  C6, as stated, fails in two places. A \<open>claim_area_ha\<close> that is missing in every
  record leaves the frame without the column, and the aggregates raise KeyError: at
  the dataset of A and B from features without the key, the performance metrics and
  the rollup by state raise. And a \<open>claim_area_ha\<close> that is not numeric is not excluded:
  at the dataset of A and of a record whose area is the string \<open>n/a\<close>, the range filter
  raises TypeError on the comparison of the string with the bound, and the performance
  metrics raise TypeError on the sum.
\<close>

theorem unusable_area_counterexample:
  "fst (get_performance_metrics demo_lib no_area_store) = Inl (key_error ''claim_area_ha'')
   \<and> fst (get_state_wise_summary demo_lib no_area_store) =
       Inl (agg_columns_error [''claim_area_ha''])
   \<and> fst (get_filtered_claims demo_float (Some [(''claim_area_min'', PStr ''2.5'')])
            bad_area_store) = Inl (cmp_error ''>='')
   \<and> fst (get_performance_metrics demo_lib bad_area_store) = Inl add_error_float_str"
  by code_simp

text \<open>
  C6, amended: for every dataset of the data model (each record carries the attributes
  that may not be absent) in which one record at least carries a \<open>claim_area_ha\<close>, so
  that the frame has the columns that the aggregates read, and every \<open>claim_area_ha\<close> is
  a number or null, a record whose \<open>claim_area_ha\<close> is missing never makes an aggregate
  computation raise: the grouped rollups and the performance metrics return. The sum
  of a group is the sum (as pandas adds the doubles) of the areas of the group that are
  not null. \<open>total_area_ha\<close> is the rounded sum of the column, in which pandas puts 0 in
  the place of a missing area; \<open>average_claim_size_ha\<close> is the rounded mean, which
  divides that sum by the number of the areas that are not missing, and is \<open>NaN\<close> when
  there is none. A result of the filter with an active \<open>claim_area_min\<close> or
  \<open>claim_area_max\<close> holds no record whose area is missing.
\<close>

theorem missing_area_is_excluded:
  assumes "numeric_areas (df s)" and "has_columns s aggregate_columns"
  shows "(\<exists>res. fst (get_state_wise_summary lib s) = Inr res \<and>
            list_all (\<lambda>(k, e). map_of e ''claim_area_ha'' =
               Some (Area (Number (grp_sum lib
                 (nums (map claim_area_ha (filter (\<lambda>r. state r = Some k) (df s))))))))
              res) \<and>
         (\<exists>res. fst (get_tribal_community_analysis lib s) = Inr res \<and>
            list_all (\<lambda>(k, e). map_of e ''claim_area_ha'' =
               Some (Area (Number (grp_sum lib
                 (nums (map claim_area_ha
                    (filter (\<lambda>r. tribal_community r = Some k) (df s))))))))
              res) \<and>
         (\<exists>m. fst (get_performance_metrics lib s) = Inr m \<and>
            (df s \<noteq> [] \<longrightarrow>
               (\<exists>pm. m = Some pm \<and>
                  pm_total_area_ha pm =
                    round_np lib (np_sum lib (map zero_filled (map claim_area_ha (df s)))) \<and>
                  pm_average_claim_size_ha pm =
                    (if filter (\<lambda>r. claim_area_ha r \<noteq> Null) (df s) = [] then NaN
                     else round_np lib
                            (np_mean lib (map zero_filled (map claim_area_ha (df s)))
                               (length (filter (\<lambda>r. claim_area_ha r \<noteq> Null) (df s)))))))) \<and>
         (\<forall>f v res. fst (get_filtered_claims to_float (Some f) s) = Inr res \<and>
              (active f ''claim_area_min'' = Some v \<or> active f ''claim_area_max'' = Some v) \<longrightarrow>
              list_all (\<lambda>x. claim_area_ha (f_properties x) \<noteq> Null) (c_features res))"
proof -
  have g: "has_columns s grouped_columns"
    using assms(2) by (auto simp: has_columns_def aggregate_columns_def)
  have 1: "\<exists>res. fst (get_state_wise_summary lib s) = Inr res \<and>
            list_all (\<lambda>(k, e). map_of e ''claim_area_ha'' =
               Some (Area (Number (grp_sum lib
                 (nums (map claim_area_ha (filter (\<lambda>r. state r = Some k) (df s))))))))
              res"
  proof (cases "df s = []")
    case True
    then show ?thesis by (simp add: get_state_wise_summary_def)
  next
    case False
    show ?thesis
      by (simp add: state_rollup_numeric [OF assms(1) False g] list_all_iff
            numeric_entry_area)
  qed
  have 2: "\<exists>res. fst (get_tribal_community_analysis lib s) = Inr res \<and>
            list_all (\<lambda>(k, e). map_of e ''claim_area_ha'' =
               Some (Area (Number (grp_sum lib
                 (nums (map claim_area_ha
                    (filter (\<lambda>r. tribal_community r = Some k) (df s))))))))
              res"
  proof (cases "df s = []")
    case True
    then show ?thesis by (simp add: get_tribal_community_analysis_def)
  next
    case False
    show ?thesis
      by (simp add: tribal_rollup_numeric [OF assms(1) False g] list_all_iff
            numeric_entry_area)
  qed
  have 3: "\<exists>m. fst (get_performance_metrics lib s) = Inr m \<and>
            (df s \<noteq> [] \<longrightarrow>
               (\<exists>pm. m = Some pm \<and>
                  pm_total_area_ha pm =
                    round_np lib (np_sum lib (map zero_filled (map claim_area_ha (df s)))) \<and>
                  pm_average_claim_size_ha pm =
                    (if filter (\<lambda>r. claim_area_ha r \<noteq> Null) (df s) = [] then NaN
                     else round_np lib
                            (np_mean lib (map zero_filled (map claim_area_ha (df s)))
                               (length (filter (\<lambda>r. claim_area_ha r \<noteq> Null) (df s)))))))"
  proof (cases "df s = []")
    case True
    then show ?thesis by (simp add: get_performance_metrics_def)
  next
    case False
    from performance_numeric [OF assms(1) False assms(2), of lib] False show ?thesis by auto
  qed
  have 4: "\<forall>f v res. fst (get_filtered_claims to_float (Some f) s) = Inr res \<and>
              (active f ''claim_area_min'' = Some v \<or> active f ''claim_area_max'' = Some v) \<longrightarrow>
              list_all (\<lambda>x. claim_area_ha (f_properties x) \<noteq> Null) (c_features res)"
  proof (intro allI impI)
    fix f v res
    assume a: "fst (get_filtered_claims to_float (Some f) s) = Inr res \<and>
       (active f ''claim_area_min'' = Some v \<or> active f ''claim_area_max'' = Some v)"
    show "list_all (\<lambda>x. claim_area_ha (f_properties x) \<noteq> Null) (c_features res)"
      unfolding list_all_iff
    proof
      fix x
      assume "x \<in> set (c_features res)"
      with a range_filter_excludes_null [of to_float f s res v x]
      obtain n where "claim_area_ha (f_properties x) = Num n" by blast
      then show "claim_area_ha (f_properties x) \<noteq> Null" by simp
    qed
  qed
  from 1 2 3 4 show ?thesis by blast
qed

text \<open>
  The amended C6 at the store of three records, of which C has no area: the total is
  2 + 3, the mean 5 / 2 (not 5 / 3), the sum of the state Y is 0, and the range filter
  with the bound 2.5 returns B alone.
\<close>

theorem missing_area_is_excluded_witness:
  "numeric_areas (df demo_store) \<and> has_columns demo_store aggregate_columns \<and>
   claim_area_ha rowC = Null \<and>
   fst (get_state_wise_summary demo_lib demo_store) = Inr demo_state_summary \<and>
   map_of demo_entry_Y ''claim_area_ha'' = Some (Area (Number (Fin 0))) \<and>
   fst (get_performance_metrics demo_lib demo_store) = Inr (Some demo_metrics) \<and>
   pm_total_area_ha demo_metrics = Fin 5 \<and> pm_average_claim_size_ha demo_metrics = Fin (5 / 2) \<and>
   fst (get_filtered_claims demo_float (Some demo_criteria) demo_store) =
     Inr \<lparr>c_type = ''FeatureCollection'', c_features = [to_feature rowB],
          c_properties = Some \<lparr>m_total_claims = 1, m_filters_applied = demo_criteria\<rparr>\<rparr> \<and>
   active demo_criteria ''claim_area_min'' = Some ''2.5'' \<and>
   list_all (\<lambda>x. claim_area_ha (f_properties x) \<noteq> Null) [to_feature rowB]"
proof -
  have n: "numeric_areas (df demo_store)"
    by (simp add: numeric_areas_def demo_eval)
  have c: "has_columns demo_store aggregate_columns"
    by (simp add: has_columns_def aggregate_columns_def grouped_columns_def demo_store_def
          demo_columns_def demo_keys_def)
  have f: "fst (get_filtered_claims demo_float (Some demo_criteria) demo_store) =
     Inr \<lparr>c_type = ''FeatureCollection'', c_features = [to_feature rowB],
          c_properties = Some \<lparr>m_total_claims = 1, m_filters_applied = demo_criteria\<rparr>\<rparr>"
    by (simp add: filter_eval demo_eval)
  have a: "active demo_criteria ''claim_area_min'' = Some ''2.5''"
    by (simp add: active_def demo_criteria_def)
  from missing_area_is_excluded [OF n c, of demo_lib demo_float] f a
  have "list_all (\<lambda>x. claim_area_ha (f_properties x) \<noteq> Null) [to_feature rowB]"
    by fastforce
  with n c f a demo_state_wise_summary demo_performance_metrics show ?thesis
    by (simp add: rowC_def demo_metrics_def demo_entry_Y_def)
qed

section \<open>Records without a date\<close>

lemma date_strings_Nil_iff:
  "date_strings rows = [] \<longleftrightarrow> (\<forall>r \<in> set rows. \<forall>s. submission_date r \<noteq> Raw s)"
  by (induction rows) (auto simp: date_strings_def List.map_filter_def split: date_cell.splits)

lemma convert_date_no_string: "(\<And>s. d \<noteq> Raw s) \<Longrightarrow> convert_date rd d = d"
  by (cases d) auto

lemma convert_dates_accepted:
  assumes "dates_accepted td rows"
  shows "convert_dates td rows =
     Inr (map (\<lambda>r. r\<lparr>submission_date :=
                        convert_date (the_reading td rows) (submission_date r)\<rparr>) rows)"
proof (cases "date_strings rows = []")
  case True
  have "map (\<lambda>r. r\<lparr>submission_date := convert_date rd (submission_date r)\<rparr>) rows = rows" for rd
  proof (rule map_idI)
    fix r
    assume "r \<in> set rows"
    with True have "\<And>s. submission_date r \<noteq> Raw s" by (simp add: date_strings_Nil_iff)
    then have "convert_date rd (submission_date r) = submission_date r"
      by (rule convert_date_no_string)
    then show "r\<lparr>submission_date := convert_date rd (submission_date r)\<rparr> = r" by simp
  qed
  with True show ?thesis by (simp add: convert_dates_def)
next
  case False
  with assms obtain rd where "td (date_strings rows) = Inr rd"
    by (auto simp: dates_accepted_def split: sum.splits)
  with False show ?thesis by (simp add: convert_dates_def the_reading_def)
qed

text \<open>A record whose \<open>submission_date\<close> is missing has no date, no year and no month.\<close>

lemma missing_date_has_no_date:
  "submission_date r = NaT \<Longrightarrow>
     date_of rd r = None \<and> year_of rd r = None \<and> month_of rd r = None"
  by (simp add: date_of_def year_of_def month_of_def)

lemma dt_year_convert: "dt_year (convert_date rd (submission_date r)) = year_of rd r"
  by (cases "submission_date r")
     (simp_all add: year_of_def date_of_def split: option.splits)

lemma dt_month_convert: "dt_month (convert_date rd (submission_date r)) = month_of rd r"
  by (cases "submission_date r")
     (simp_all add: month_of_def date_of_def split: option.splits)

lemma submission_year_prepared: "submission_year (prepared rd r) = Some (year_of rd r)"
  by (simp add: prepared_def add_year_month_def dt_year_convert)

lemma year_key_prepared: "year_key (prepared rd r) = year_of rd r"
  by (cases "year_of rd r")
     (simp_all add: year_key_def prepared_def add_year_month_def dt_year_convert)

lemma month_key_prepared: "month_key (prepared rd r) = month_of rd r"
  by (cases "month_of rd r")
     (simp_all add: month_key_def prepared_def add_year_month_def dt_month_convert)

lemma prepared_fields:
  "claim_area_ha (prepared rd r) = claim_area_ha r"
  "claim_id (prepared rd r) = claim_id r"
  "status (prepared rd r) = status r"
  by (simp_all add: prepared_def add_year_month_def)

lemma numeric_year_entry_prepared:
  "numeric_year_entry lib (map (prepared rd) g) = numeric_year_entry lib g"
  by (simp add: numeric_year_entry_def comp_def filter_map prepared_fields)

lemma numeric_month_entry_prepared:
  "numeric_month_entry lib (map (prepared rd) g) = numeric_month_entry lib g"
  by (simp add: numeric_month_entry_def comp_def prepared_fields)

lemma map_filter_map: "List.map_filter key (map f xs) = List.map_filter (\<lambda>x. key (f x)) xs"
  by (simp add: List.map_filter_def filter_map comp_def)

lemma numeric_timeline_prepared:
  "numeric_timeline lib cy (map (prepared rd) rows) =
     \<lparr>yearly =
        map (\<lambda>k. (k, numeric_year_entry lib (filter (\<lambda>r. year_of rd r = Some k) rows)))
          (group_keys (year_of rd) rows),
      monthly =
        map (\<lambda>m. (m, numeric_month_entry lib
                       (filter (\<lambda>r. year_of rd r = Some cy \<and> month_of rd r = Some m) rows)))
          (group_keys (month_of rd) (filter (\<lambda>r. year_of rd r = Some cy) rows))\<rparr>"
  by (simp add: numeric_timeline_def group_keys_def filter_map comp_def map_filter_map
        year_key_prepared month_key_prepared submission_year_prepared
        numeric_year_entry_prepared numeric_month_entry_prepared)

lemma year_of_None: "year_of rd r = None \<longleftrightarrow> date_of rd r = None"
  by (simp add: year_of_def)

lemma timeline_ok_numeric:
  assumes "no_null claim_id rows"
  shows "timeline_ok lib rd cy rows (numeric_timeline lib cy (map (prepared rd) rows))"
proof -
  let ?ys = "group_keys (year_of rd) rows"
  let ?cur = "filter (\<lambda>r. year_of rd r = Some cy) rows"
  let ?ms = "group_keys (month_of rd) ?cur"
  let ?Y = "map (\<lambda>k. (k, numeric_year_entry lib (filter (\<lambda>r. year_of rd r = Some k) rows))) ?ys"
  let ?M = "map (\<lambda>m. (m, numeric_month_entry lib
                 (filter (\<lambda>r. year_of rd r = Some cy \<and> month_of rd r = Some m) rows))) ?ms"
  have ids: "count_notnull (map claim_id (filter P rows)) = length (filter P rows)" for P
  proof -
    have "\<forall>r \<in> set (filter P rows). claim_id r \<noteq> None"
      using assms by (simp add: no_null_def list_all_iff)
    then have "filter (\<lambda>r. claim_id r \<noteq> None) (filter P rows) = filter P rows"
      by (simp only: filter_id_conv)
    then show ?thesis by (simp only: count_notnull_map)
  qed
  have fy: "map fst ?Y = ?ys" and fm: "map fst ?M = ?ms" by (simp_all add: comp_def)
  have ky: "sorted (map fst ?Y)" "distinct (map fst ?Y)"
    "set (map fst ?Y) = set (List.map_filter (year_of rd) rows)"
    by (simp_all only: fy group_keys_sorted group_keys_distinct group_keys_set)
  have km: "sorted (map fst ?M)" "distinct (map fst ?M)"
    "set (map fst ?M) = set (List.map_filter (month_of rd) ?cur)"
    by (simp_all only: fm group_keys_sorted group_keys_distinct group_keys_set)
  have ey: "list_all (\<lambda>(y, e). year_entry_ok lib (filter (\<lambda>r. year_of rd r = Some y) rows) e) ?Y"
    by (simp add: list_all_iff year_entry_ok_def numeric_year_entry_def ids)
  have em: "list_all (\<lambda>(m, e). month_entry_ok lib
                  (filter (\<lambda>r. year_of rd r = Some cy \<and> month_of rd r = Some m) rows) e) ?M"
    by (simp add: list_all_iff month_entry_ok_def numeric_month_entry_def ids)
  have "sum_list (map (\<lambda>(y, e). y_claims_submitted e) ?Y) =
        sum_list (map (\<lambda>k. length (filter (\<lambda>r. year_of rd r = Some k \<and> True) rows)) ?ys)"
    by (simp add: comp_def numeric_year_entry_def ids)
  also have "\<dots> = length (filter (\<lambda>r. year_of rd r \<in> Some ` set ?ys \<and> True) rows)"
    by (rule sum_group_sizes [OF group_keys_distinct])
  also have "filter (\<lambda>r. year_of rd r \<in> Some ` set ?ys \<and> True) rows =
             filter (\<lambda>r. date_of rd r \<noteq> None) rows"
    by (rule filter_cong) (simp_all add: key_in_group_keys year_of_None)
  finally have s: "sum_list (map (\<lambda>(y, e). y_claims_submitted e) ?Y) =
      length (filter (\<lambda>r. date_of rd r \<noteq> None) rows)" .
  from ky km ey em s show ?thesis
    unfolding timeline_ok_def numeric_timeline_prepared by simp
qed

lemma summarise_year_numeric: "summarise_year lib False g = Inr (numeric_year_entry lib g)"
  by (simp add: summarise_year_def group_sum_def numeric_year_entry_def)

lemma summarise_month_numeric: "summarise_month lib False g = Inr (numeric_month_entry lib g)"
  by (simp add: summarise_month_def group_sum_def numeric_month_entry_def)

lemma timeline_numeric:
  assumes ne: "df s \<noteq> []" and cols: "has_columns s timeline_columns"
    and num: "numeric_areas (df s)" and acc: "dates_accepted td (df s)"
  shows "fst (get_timeline_analysis lib td cy s) =
           Inr (Some (numeric_timeline lib cy (map (prepared (the_reading td (df s))) (df s))))"
proof -
  let ?rd = "the_reading td (df s)"
  let ?P = "map (prepared ?rd) (df s)"
  let ?s' = "s\<lparr>df := ?P,
               df_columns :=
                 add_columns [''submission_year'', ''submission_month''] (df_columns s)\<rparr>"
  have c: "''submission_date'' \<in> set (df_columns s)" "''claim_id'' \<in> set (df_columns s)"
    "''claim_area_ha'' \<in> set (df_columns s)" "''status'' \<in> set (df_columns s)"
    by (rule has_columns_mem [OF cols ne], simp add: timeline_columns_def)+
  have conv: "convert_dates td (df s) =
      Inr (map (\<lambda>r. r\<lparr>submission_date := convert_date ?rd (submission_date r)\<rparr>) (df s))"
    by (rule convert_dates_accepted [OF acc])
  have prep: "map (add_year_month \<circ>
                   (\<lambda>r. r\<lparr>submission_date := convert_date ?rd (submission_date r)\<rparr>)) (df s) = ?P"
    by (simp add: prepared_def comp_def)
  have m3: "missing_columns ?s' [''claim_id'', ''claim_area_ha'', ''status''] = []"
    by (rule missing_columns_Nil) (simp add: c add_columns_def)
  have m2: "missing_columns ?s' [''claim_id'', ''claim_area_ha''] = []"
    by (rule missing_columns_Nil) (simp add: c add_columns_def)
  have obj: "\<not> object_column (map claim_area_ha ?P)"
    using numeric_not_object [OF num] by (simp add: comp_def prepared_fields)
  have y: "yearly_rollup lib ?s' = Inr (yearly (numeric_timeline lib cy ?P))"
    using obj
    by (simp add: yearly_rollup_def m3 numeric_timeline_def
          agg_groupby [where f = "summarise_year lib False", OF summarise_year_numeric])
  have m: "monthly_rollup lib cy ?s' = Inr (monthly (numeric_timeline lib cy ?P))"
    using obj
    by (simp add: monthly_rollup_def m2 numeric_timeline_def
          agg_groupby [where f = "summarise_month lib False", OF summarise_month_numeric])
  from ne c(1) conv y m show ?thesis
    by (simp add: get_timeline_analysis_def Let_def prep)
qed

lemma demo_timeline_analysis:
  "fst (get_timeline_analysis demo_lib demo_datetime 2024 demo_store) =
     Inr (Some demo_timeline)"
  by code_simp

text \<open>
  C3, as stated, fails in three places. A date that cannot be parsed is not excluded:
  \<open>pd.to_datetime\<close> raises on the column that holds it, so \<open>get_timeline_analysis\<close> raises
  and the route answers with the error 500 instead of the rollups, as at the dataset of
  A and of B with the date \<open>soon\<close>. A date that is missing in every record leaves the
  frame without the column \<open>submission_date\<close>: the operation raises KeyError, as at the
  dataset of A from a feature without the key. And beside a record without a date (C)
  the operation raises KeyError all the same when no record carries a \<open>claim_area_ha\<close>,
  which the rollups sum.
\<close>

theorem unparseable_date_counterexample:
  "fst (get_timeline_analysis demo_lib demo_datetime 2024 unreadable_store) =
     Inl (ValueError ''Unknown datetime string format, unable to parse: soon'') \<and>
   fst (timeline_route demo_lib demo_datetime 2024 unreadable_store) =
     ErrorJson 500 ''Unknown datetime string format, unable to parse: soon'' None \<and>
   fst (get_timeline_analysis demo_lib demo_datetime 2024 no_date_store) =
     Inl (key_error ''submission_date'') \<and>
   fst (timeline_route demo_lib demo_datetime 2024 no_date_store) =
     ErrorJson 500 (q @ ''submission_date'' @ q) None \<and>
   submission_date rowC = NaT \<and>
   fst (get_timeline_analysis demo_lib demo_datetime 2024
          (no_area_store\<lparr>df := df no_area_store @ [rowC]\<rparr>)) =
     Inl (agg_columns_error [''claim_area_ha''])"
  by code_simp

text \<open>
  C3, amended: for every dataset of the data model (each record carries the attributes
  that may not be absent, among them \<open>claim_id\<close> and \<open>status\<close>, and its \<open>claim_area_ha\<close> is
  a number or is missing) in which one record at least carries a \<open>submission_date\<close> and
  one a \<open>claim_area_ha\<close>, so that the frame has the columns that the timeline reads, and
  on whose column of dates \<open>pd.to_datetime\<close> does not raise, the timeline operation
  returns its result, and a record whose \<open>submission_date\<close> is missing is excluded from
  both rollups: the years of the yearly rollup are the years of the records that have a
  date, the entry of a year counts and sums the records of that year, the months and
  the entries of the monthly rollup are those of the records of the current year, and
  the records counted in the years are the records that have a date. A date string
  that \<open>pd.to_datetime\<close> rejects, be it alone or beside the other dates of the column,
  makes the operation raise.
\<close>

theorem timeline_excludes_missing_dates:
  assumes "has_columns s timeline_columns" and "numeric_areas (df s)"
    and "no_null claim_id (df s)" and "dates_accepted to_datetime (df s)"
  shows "(df s = [] \<longrightarrow> fst (get_timeline_analysis lib to_datetime cy s) = Inr None) \<and>
         (df s \<noteq> [] \<longrightarrow>
            (\<exists>tm. fst (get_timeline_analysis lib to_datetime cy s) = Inr (Some tm) \<and>
               timeline_ok lib (the_reading to_datetime (df s)) cy (df s) tm))"
proof (cases "df s = []")
  case True
  then show ?thesis by (simp add: get_timeline_analysis_def)
next
  case False
  from timeline_numeric [OF False assms(1,2,4), of lib cy] timeline_ok_numeric [OF assms(3)]
    False
  show ?thesis by simp
qed

text \<open>
  The amended C3 at the store of three records, of which C has no date: the yearly
  rollup has the one year 2024 with the two records A and B, the monthly rollup their
  month, and of the three records two are counted.
\<close>

theorem timeline_excludes_missing_dates_witness:
  "has_columns demo_store timeline_columns \<and> numeric_areas (df demo_store) \<and>
   no_null claim_id (df demo_store) \<and> dates_accepted demo_datetime (df demo_store) \<and>
   submission_date rowC = NaT \<and> length (df demo_store) = 3 \<and>
   fst (get_timeline_analysis demo_lib demo_datetime 2024 demo_store) =
     Inr (Some demo_timeline) \<and>
   timeline_ok demo_lib (the_reading demo_datetime (df demo_store)) 2024 (df demo_store)
     demo_timeline \<and>
   map fst (yearly demo_timeline) = [2024] \<and> map fst (monthly demo_timeline) = [1] \<and>
   sum_list (map (\<lambda>(y, e). y_claims_submitted e) (yearly demo_timeline)) = 2"
proof -
  have c: "has_columns demo_store timeline_columns"
    by (simp add: has_columns_def timeline_columns_def demo_store_def demo_columns_def
          demo_keys_def)
  have n: "numeric_areas (df demo_store)"
    by (simp add: numeric_areas_def demo_eval)
  have i: "no_null claim_id (df demo_store)"
    by (simp add: no_null_def demo_eval)
  have a: "dates_accepted demo_datetime (df demo_store)"
    by (simp add: dates_accepted_def date_strings_def List.map_filter_def demo_datetime_def
          demo_eval)
  from timeline_excludes_missing_dates [OF c n i a, of demo_lib 2024] demo_timeline_analysis
  have "timeline_ok demo_lib (the_reading demo_datetime (df demo_store)) 2024
          (df demo_store) demo_timeline"
    by (simp add: demo_store_def)
  with c n i a demo_timeline_analysis show ?thesis
    by (simp add: rowC_def rowA_def demo_timeline_def demo_store_def)
qed

end
